theory Spec2Isabelle
  imports Complex_Main
begin

section \<open>Python values shared by both source files\<close>

text \<open>
  Exceptions of the Python program are values: every function of the model that can raise
  returns \<open>py_error + 'a\<close>, with \<open>Inl\<close> for the exception. A function that also changes
  state returns the state beside the outcome, because an exception does not undo the
  assignments made before it.
\<close>

datatype py_error = ValueError | IndexError | TypeError | KeyError | RuntimeError | RecursionError

text \<open>
  \<open>xs[i]\<close> on a Python list: a negative index counts from the end, and an index outside
  the list raises IndexError.
\<close>

definition py_index :: "'a list \<Rightarrow> int \<Rightarrow> py_error + 'a" where
  "py_index xs i =
     (let n = int (length xs); j = (if i < 0 then i + n else i)
      in if 0 \<le> j \<and> j < n then Inr (xs ! nat j) else Inl IndexError)"

section \<open>transforms.py: the random module\<close>

text \<open>
  The module \<open>random\<close> is Python's standard library, not code of the repository. Its
  generator is a state of an arbitrary type \<open>'g\<close>; the two library functions the
  repository calls are parameters:
  \<^item> \<open>seed_state s\<close> is the generator state \<open>random.seed(s)\<close> installs (it depends on
    the seed only);
  \<^item> \<open>draw g a b\<close> is the number \<open>random.randint(a, b)\<close> returns from state \<open>g\<close> on a
    non-empty range, with the state it leaves.
  What the library documents about \<open>randint\<close>, that the number lies in \<open>a..b\<close>, is the
  predicate \<open>randint_in_range\<close>; theorems that need it assume it.
\<close>

record ('g, 's) random_lib =
  seed_state :: "'s \<Rightarrow> 'g"
  draw :: "'g \<Rightarrow> int \<Rightarrow> int \<Rightarrow> int \<times> 'g"

definition randint_in_range :: "('g, 's) random_lib \<Rightarrow> bool" where
  "randint_in_range R =
     (\<forall>g a b. a \<le> b \<longrightarrow> a \<le> fst (draw R g a b) \<and> fst (draw R g a b) \<le> b)"

text \<open>
  \<open>random.seed(a=seed)\<close> under \<open>if seed is not None\<close>: without a seed the global
  generator is left as it is.
\<close>

definition reseed :: "('g, 's) random_lib \<Rightarrow> 's option \<Rightarrow> 'g \<Rightarrow> 'g" where
  "reseed R seed g = (case seed of None \<Rightarrow> g | Some s \<Rightarrow> seed_state R s)"

text \<open>
  \<open>random.randint(a, b)\<close>: on an empty range the library raises ValueError before it
  draws anything.
\<close>

definition py_randint :: "('g, 's) random_lib \<Rightarrow> int \<Rightarrow> int \<Rightarrow> 'g \<Rightarrow> (py_error + int) \<times> 'g" where
  "py_randint R a b g =
     (if b < a then (Inl ValueError, g)
      else (case draw R g a b of (v, g') \<Rightarrow> (Inr v, g')))"

text \<open>
  \<^verbatim>\<open>
  def _rand_select(xs, seed=None):
      xs = list(xs)
      if seed is not None:
          random.seed(a=seed)
      idx = random.randint(0, len(xs) - 1)
      return xs[idx]
  \<close>
  The argument is the content of the sequence (\<open>list(xs)\<close> copies it). \<open>rand_index\<close> is
  the function up to the line that draws \<open>idx\<close>.
\<close>

definition rand_index :: "('g, 's) random_lib \<Rightarrow> 'a list \<Rightarrow> 's option \<Rightarrow> 'g \<Rightarrow> (py_error + int) \<times> 'g" where
  "rand_index R xs seed g = py_randint R 0 (int (length xs) - 1) (reseed R seed g)"

definition rand_select :: "('g, 's) random_lib \<Rightarrow> 'a list \<Rightarrow> 's option \<Rightarrow> 'g \<Rightarrow> (py_error + 'a) \<times> 'g" where
  "rand_select R xs seed g =
     (case rand_index R xs seed g of
        (Inl e, g') \<Rightarrow> (Inl e, g')
      | (Inr idx, g') \<Rightarrow> (py_index xs idx, g'))"

text \<open>The static methods \<open>RandomScale.get_params\<close> and \<open>RandomRotate.get_params\<close>.\<close>

definition RandomScale_get_params :: "('g, 's) random_lib \<Rightarrow> real list \<Rightarrow> 's option \<Rightarrow> 'g \<Rightarrow> (py_error + real) \<times> 'g" where
  "RandomScale_get_params R scales seed g = rand_select R scales seed g"

definition RandomRotate_get_params :: "('g, 's) random_lib \<Rightarrow> real list \<Rightarrow> 's option \<Rightarrow> 'g \<Rightarrow> (py_error + real) \<times> 'g" where
  "RandomRotate_get_params R angles seed g = rand_select R angles seed g"

text \<open>
  \<^verbatim>\<open>
  def get_params(pixels, seed=None):
      if seed is not None:
          random.seed(seed)
      return random.randint(0, pixels), random.randint(0, pixels)
  \<close>
  The tuple's elements are evaluated left to right, the second draw from the state the
  first one left.
\<close>

definition SpatialJitter_get_params :: "('g, 's) random_lib \<Rightarrow> int \<Rightarrow> 's option \<Rightarrow> 'g \<Rightarrow> (py_error + int \<times> int) \<times> 'g" where
  "SpatialJitter_get_params R pixels seed g =
     (case py_randint R 0 pixels (reseed R seed g) of
        (Inl e, g1) \<Rightarrow> (Inl e, g1)
      | (Inr x_offset, g1) \<Rightarrow>
          (case py_randint R 0 pixels g1 of
             (Inl e, g2) \<Rightarrow> (Inl e, g2)
           | (Inr y_offset, g2) \<Rightarrow> (Inr (x_offset, y_offset), g2)))"

text \<open>
  A small generator for running the model on concrete inputs: its state is a counter,
  seeding sets the counter, and a draw from \<open>a..b\<close> returns \<open>a\<close> plus the counter modulo
  the width of the range.
\<close>

definition counter_rng :: "(int, int) random_lib" where
  "counter_rng = \<lparr>seed_state = (\<lambda>s. s), draw = (\<lambda>g a b. (a + g mod (b - a + 1), g + 1))\<rparr>"

section \<open>transforms.py: tensors\<close>

text \<open>
  A tensor of the tensor library is its shape and its elements, an element for each index
  (a list of positions, one per dimension), with the dtype and the device it is stored
  on. The floating-point elements are idealised as real numbers. The operations below
  are the library's, as its documentation describes them, restricted to what the
  repository calls.
\<close>

record tensor =
  shape :: "nat list"
  elem :: "nat list \<Rightarrow> real"
  dtype :: string
  device :: string

definition dim :: "tensor \<Rightarrow> nat" where
  "dim t = length (shape t)"

text \<open>\<open>t.size(i)\<close> for a dimension \<open>i\<close> counted from the front.\<close>

definition tsize :: "tensor \<Rightarrow> nat \<Rightarrow> py_error + nat" where
  "tsize t i = (if i < dim t then Inr (shape t ! i) else Inl IndexError)"

definition unsqueeze0 :: "tensor \<Rightarrow> tensor" where
  "unsqueeze0 t = t\<lparr>shape := 1 # shape t, elem := (\<lambda>idx. elem t (tl idx))\<rparr>"

text \<open>\<open>t.squeeze(0)\<close> drops the first dimension when its size is 1 and returns \<open>t\<close> otherwise.\<close>

definition squeeze0 :: "tensor \<Rightarrow> tensor" where
  "squeeze0 t =
     (case shape t of
        [] \<Rightarrow> t
      | n # ns \<Rightarrow> if n = 1 then t\<lparr>shape := ns, elem := (\<lambda>idx. elem t (0 # idx))\<rparr> else t)"

text \<open>
  \<^verbatim>\<open>
  def _as_4d(x):
      if x.dim() == 3:
          return x.unsqueeze(0)
      else:
          return x

  def _as_3d(x):
      if x.dim() == 4:
          return x.squeeze(0)
      else:
          return x
  \<close>
\<close>

definition as_4d :: "tensor \<Rightarrow> tensor" where
  "as_4d x = (if dim x = 3 then unsqueeze0 x else x)"

definition as_3d :: "tensor \<Rightarrow> tensor" where
  "as_3d x = (if dim x = 4 then squeeze0 x else x)"

text \<open>
  A slice \<open>a:b\<close> over a dimension of size \<open>n\<close>: a negative bound counts from the end, both
  bounds are clamped to \<open>0..n\<close>, and the slice is empty when the stop is not after the
  start. The result is the first position taken and the number of positions.
\<close>

definition slice_bound :: "nat \<Rightarrow> int \<Rightarrow> nat" where
  "slice_bound n i = (if i < 0 then nat (max (i + int n) 0) else min (nat i) n)"

definition slice_range :: "nat \<Rightarrow> int \<Rightarrow> int \<Rightarrow> nat \<times> nat" where
  "slice_range n a b = (slice_bound n a, slice_bound n b - slice_bound n a)"

text \<open>
  \<open>img[:, a:b, c:d]\<close>: the first dimension whole, the second and third sliced, any further
  dimension whole. A tensor of fewer than three dimensions has too many indices.
\<close>

definition slice_hw :: "tensor \<Rightarrow> int \<Rightarrow> int \<Rightarrow> int \<Rightarrow> int \<Rightarrow> py_error + tensor" where
  "slice_hw img a b c d =
     (case shape img of
        n0 # n1 # n2 # ns \<Rightarrow>
          (case (slice_range n1 a b, slice_range n2 c d) of
             ((s1, l1), (s2, l2)) \<Rightarrow>
               Inr (img\<lparr>shape := n0 # l1 # l2 # ns,
                        elem := (\<lambda>idx. elem img (idx[1 := idx ! 1 + s1, 2 := idx ! 2 + s2]))\<rparr>))
      | _ \<Rightarrow> Inl IndexError)"

section \<open>transforms.py: SpatialJitter\<close>

text \<open>
  \<^verbatim>\<open>
  def __call__(self, img):
      img = _as_3d(img)
      x_offset, y_offset = self.get_params(self._pixels, self._seed)

      x_end = img.size(1) - (self._pixels - x_offset)
      y_end = img.size(2) - (self._pixels - y_offset)

      return img[:, x_offset:x_end, y_offset:y_end]
  \<close>
  The arguments \<open>pixels\<close> and \<open>seed\<close> are the fields \<open>self._pixels\<close> and \<open>self._seed\<close>; the
  state is the global generator.
\<close>

definition SpatialJitter_call :: "('g, 's) random_lib \<Rightarrow> int \<Rightarrow> 's option \<Rightarrow> tensor \<Rightarrow> 'g \<Rightarrow> (py_error + tensor) \<times> 'g" where
  "SpatialJitter_call R pixels seed img0 g =
     (let img = as_3d img0 in
      case SpatialJitter_get_params R pixels seed g of
        (Inl e, g') \<Rightarrow> (Inl e, g')
      | (Inr (x_offset, y_offset), g') \<Rightarrow>
          (case tsize img 1 of
             Inl e \<Rightarrow> (Inl e, g')
           | Inr h \<Rightarrow>
               (case tsize img 2 of
                  Inl e \<Rightarrow> (Inl e, g')
                | Inr w \<Rightarrow>
                    (let x_end = int h - (pixels - x_offset);
                         y_end = int w - (pixels - y_offset)
                     in (slice_hw img x_offset x_end y_offset y_end, g')))))"

section \<open>transforms.py: the tensor library's functions\<close>

text \<open>
  The numeric kernels of the tensor library are parameters: \<open>interpolate\<close>,
  \<open>affine_grid\<close> and \<open>grid_sample\<close> take the arguments the repository passes and return a
  tensor or raise. \<open>fft_image\<close> stands for code of the repository that is not among the
  source files: the chain
  \<open>FFTImage(size, correlate, sd, decay_power, requires_grad=False) ... .sigmoid().get_valid_image()\<close>
  of \<open>visual/images.py\<close>, which synthesizes a random image from the tensor library's
  own generator (a state of type \<open>'t\<close>).
\<close>

record 't torch_lib =
  interpolate :: "tensor \<Rightarrow> real \<Rightarrow> string \<Rightarrow> bool option \<Rightarrow> py_error + tensor"
  affine_grid :: "tensor \<Rightarrow> nat list \<Rightarrow> py_error + tensor"
  grid_sample :: "tensor \<Rightarrow> tensor \<Rightarrow> string \<Rightarrow> string \<Rightarrow> py_error + tensor"
  fft_image :: "int list \<Rightarrow> bool \<Rightarrow> real \<Rightarrow> real \<Rightarrow> 't \<Rightarrow> (py_error + tensor) \<times> 't"

text \<open>\<open>torch.zeros(shape, device=..., dtype=...)\<close> and \<open>t[idx] = v\<close> for an index inside the shape.\<close>

definition zeros :: "nat list \<Rightarrow> string \<Rightarrow> string \<Rightarrow> tensor" where
  "zeros ns dev dt = \<lparr>shape = ns, elem = (\<lambda>idx. 0), dtype = dt, device = dev\<rparr>"

definition tensor_set :: "tensor \<Rightarrow> nat list \<Rightarrow> real \<Rightarrow> tensor" where
  "tensor_set t idx v = t\<lparr>elem := (elem t)(idx := v)\<rparr>"

definition to_device :: "string \<Rightarrow> tensor \<Rightarrow> tensor" where
  "to_device dev t = t\<lparr>device := dev\<rparr>"

text \<open>\<open>x[-1]\<close>: the last entry along the first dimension.\<close>

definition select_last :: "tensor \<Rightarrow> py_error + tensor" where
  "select_last x =
     (case shape x of
        [] \<Rightarrow> Inl IndexError
      | n # ns \<Rightarrow>
          if n = 0 then Inl IndexError
          else Inr (x\<lparr>shape := ns, elem := (\<lambda>idx. elem x ((n - 1) # idx))\<rparr>))"

text \<open>\<open>x[:-1]\<close>: all but the last entry along the first dimension.\<close>

definition drop_last :: "tensor \<Rightarrow> py_error + tensor" where
  "drop_last x =
     (case shape x of
        [] \<Rightarrow> Inl IndexError
      | n # ns \<Rightarrow>
          (case slice_range n 0 (- 1) of
             (s, l) \<Rightarrow> Inr (x\<lparr>shape := l # ns, elem := (\<lambda>idx. elem x (idx[0 := idx ! 0 + s]))\<rparr>)))"

text \<open>
  \<open>t.repeat(*reps)\<close>: the tensor tiled \<open>reps\<close> times along each dimension. There must be
  at least as many repeat counts as dimensions, none negative; missing leading
  dimensions count as size 1.
\<close>

definition repeat :: "int list \<Rightarrow> tensor \<Rightarrow> py_error + tensor" where
  "repeat reps t =
     (if length reps < dim t \<or> list_ex (\<lambda>r. r < 0) reps then Inl RuntimeError
      else
        (let k = length reps - dim t; ns = replicate k 1 @ shape t
         in Inr (t\<lparr>shape := map2 (\<lambda>r n. nat r * n) reps ns,
                   elem := (\<lambda>idx. elem t (drop k (map2 (\<lambda>i n. i mod n) idx ns)))\<rparr>)))"

text \<open>
  Broadcasting of an elementwise operation: the shapes are aligned at the last
  dimension; two sizes are compatible when they are equal or one of them is 1. Operands
  on different devices are refused.
\<close>

definition broadcast_dim :: "nat \<Rightarrow> nat \<Rightarrow> nat option" where
  "broadcast_dim m n = (if m = n then Some m else if m = 1 then Some n else if n = 1 then Some m else None)"

definition broadcast_shapes :: "nat list \<Rightarrow> nat list \<Rightarrow> nat list option" where
  "broadcast_shapes ms ns =
     (let k = max (length ms) (length ns);
          ds = map2 broadcast_dim (replicate (k - length ms) 1 @ ms) (replicate (k - length ns) 1 @ ns)
      in if None \<in> set ds then None else Some (map the ds))"

definition broadcast_index :: "nat list \<Rightarrow> nat list \<Rightarrow> nat list" where
  "broadcast_index ns idx = map2 (\<lambda>n i. if n = 1 then 0 else i) ns (drop (length idx - length ns) idx)"

definition tensor_binop :: "(real \<Rightarrow> real \<Rightarrow> real) \<Rightarrow> tensor \<Rightarrow> tensor \<Rightarrow> py_error + tensor" where
  "tensor_binop f a b =
     (if device a \<noteq> device b then Inl RuntimeError
      else
        (case broadcast_shapes (shape a) (shape b) of
           None \<Rightarrow> Inl RuntimeError
         | Some ns \<Rightarrow>
             Inr (a\<lparr>shape := ns,
                    elem := (\<lambda>idx. f (elem a (broadcast_index (shape a) idx))
                                       (elem b (broadcast_index (shape b) idx)))\<rparr>)))"

definition tensor_mul :: "tensor \<Rightarrow> tensor \<Rightarrow> py_error + tensor" where
  "tensor_mul a b = tensor_binop (\<lambda>u v. u * v) a b"

definition tensor_add :: "tensor \<Rightarrow> tensor \<Rightarrow> py_error + tensor" where
  "tensor_add a b = tensor_binop (\<lambda>u v. u + v) a b"

text \<open>\<open>c - t\<close> for a Python number \<open>c\<close>.\<close>

definition scalar_minus :: "real \<Rightarrow> tensor \<Rightarrow> tensor" where
  "scalar_minus c t = t\<lparr>elem := (\<lambda>idx. c - elem t idx)\<rparr>"

section \<open>transforms.py: RandomAlpha\<close>

text \<open>
  \<^verbatim>\<open>
  def __call__(self, x):
      x = _as_3d(x)
      size = list(x.size())
      size[0] = size[0] - 1 if self._colour else 1
      random_image = FFTImage(size, correlate=self._colour, sd=self._sd,
          decay_power=self._decay_power, requires_grad=False
          ).to(x.device).sigmoid().get_valid_image()
      alpha = x[-1].repeat(x.size(0) - 1, 1, 1)
      image = x[:-1] * alpha
      random_image = random_image * (1 - alpha)
      return image + random_image
  \<close>
  \<open>size[0]\<close> of a tensor without dimensions is an IndexError of the list. The state is
  the tensor library's generator.
\<close>

definition RandomAlpha_size :: "bool \<Rightarrow> tensor \<Rightarrow> py_error + int list" where
  "RandomAlpha_size colour x =
     (case shape x of
        [] \<Rightarrow> Inl IndexError
      | n # ns \<Rightarrow> Inr ((if colour then int n - 1 else 1) # map int ns))"

definition RandomAlpha_blend :: "tensor \<Rightarrow> tensor \<Rightarrow> py_error + tensor" where
  "RandomAlpha_blend x random_image0 =
     (case select_last x of
        Inl e \<Rightarrow> Inl e
      | Inr x_last \<Rightarrow>
          (case tsize x 0 of
             Inl e \<Rightarrow> Inl e
           | Inr c \<Rightarrow>
               (case repeat [int c - 1, 1, 1] x_last of
                  Inl e \<Rightarrow> Inl e
                | Inr alpha \<Rightarrow>
                    (case drop_last x of
                       Inl e \<Rightarrow> Inl e
                     | Inr front \<Rightarrow>
                         (case tensor_mul front alpha of
                            Inl e \<Rightarrow> Inl e
                          | Inr image1 \<Rightarrow>
                              (case tensor_mul random_image0 (scalar_minus 1 alpha) of
                                 Inl e \<Rightarrow> Inl e
                               | Inr random_image1 \<Rightarrow> tensor_add image1 random_image1))))))"

definition RandomAlpha_call :: "'t torch_lib \<Rightarrow> real \<Rightarrow> real \<Rightarrow> bool \<Rightarrow> tensor \<Rightarrow> 't \<Rightarrow> (py_error + tensor) \<times> 't" where
  "RandomAlpha_call L sd decay_power colour x0 tg =
     (let x = as_3d x0 in
      case RandomAlpha_size colour x of
        Inl e \<Rightarrow> (Inl e, tg)
      | Inr sz \<Rightarrow>
          (case fft_image L sz colour sd decay_power tg of
             (Inl e, tg') \<Rightarrow> (Inl e, tg')
           | (Inr r, tg') \<Rightarrow> (RandomAlpha_blend x (to_device (device x) r), tg')))"

section \<open>transforms.py: RandomScale and RandomRotate\<close>

text \<open>
  \<^verbatim>\<open>
  def __call__(self, x):
      with warnings.catch_warnings():
          warnings.simplefilter("ignore")  # Stop the annoying interpolate warning
          return _as_3d(F.interpolate(
              _as_4d(x),
              scale_factor=self.get_params(self._scales, self._seed),
              mode=self._mode,
              align_corners=self._align_corners
          ))
  \<close>
  The arguments \<open>scales\<close>, \<open>mode\<close>, \<open>align_corners\<close> and \<open>seed\<close> are the fields of \<open>self\<close>
  (\<open>scales\<close> the content of the sequence \<open>self._scales\<close> refers to). The warning filter
  changes no value of the model.
\<close>

definition RandomScale_call :: "('g, 's) random_lib \<Rightarrow> 't torch_lib \<Rightarrow> real list \<Rightarrow> string \<Rightarrow> bool option \<Rightarrow> 's option \<Rightarrow> tensor \<Rightarrow> 'g \<Rightarrow> (py_error + tensor) \<times> 'g" where
  "RandomScale_call R L scales mode align_corners seed x0 g =
     (let x = as_4d x0 in
      case RandomScale_get_params R scales seed g of
        (Inl e, g') \<Rightarrow> (Inl e, g')
      | (Inr scale_factor, g') \<Rightarrow>
          (case interpolate L x scale_factor mode align_corners of
             Inl e \<Rightarrow> (Inl e, g')
           | Inr y \<Rightarrow> (Inr (as_3d y), g')))"

text \<open>
  \<^verbatim>\<open>
      theta = torch.zeros((1, 2, 3), device=x.device, dtype=x.dtype)
      theta[0, 0, 0] = math.cos(angle)
      theta[0, 1, 1] = math.cos(angle)
      theta[0, 0, 1] = math.sin(angle)
      theta[0, 1, 0] = -math.sin(angle)
  \<close>
\<close>

definition rotation_theta :: "real \<Rightarrow> string \<Rightarrow> string \<Rightarrow> tensor" where
  "rotation_theta angle dev dt =
     (let theta0 = zeros [1, 2, 3] dev dt;
          theta1 = tensor_set theta0 [0, 0, 0] (cos angle);
          theta2 = tensor_set theta1 [0, 1, 1] (cos angle);
          theta3 = tensor_set theta2 [0, 0, 1] (sin angle);
          theta4 = tensor_set theta3 [0, 1, 0] (- sin angle)
      in theta4)"

text \<open>
  \<^verbatim>\<open>
  def __call__(self, x):
      x = _as_4d(x)
      angle = self.get_params(self._angles, self._seed)
      theta = ...
      with warnings.catch_warnings():
          warnings.simplefilter("ignore")  # Stop the annoying grid_sample warning
          grid = F.affine_grid(theta, x.size())

          return _as_3d(F.grid_sample(
              x,
              grid,
              mode=self._mode,
              padding_mode=self._padding_mode
          ))
  \<close>
\<close>

definition RandomRotate_call :: "('g, 's) random_lib \<Rightarrow> 't torch_lib \<Rightarrow> real list \<Rightarrow> string \<Rightarrow> string \<Rightarrow> 's option \<Rightarrow> tensor \<Rightarrow> 'g \<Rightarrow> (py_error + tensor) \<times> 'g" where
  "RandomRotate_call R L angles mode padding_mode seed x0 g =
     (let x = as_4d x0 in
      case RandomRotate_get_params R angles seed g of
        (Inl e, g') \<Rightarrow> (Inl e, g')
      | (Inr angle, g') \<Rightarrow>
          (let theta = rotation_theta angle (device x) (dtype x) in
           case affine_grid L theta (shape x) of
             Inl e \<Rightarrow> (Inl e, g')
           | Inr grid \<Rightarrow>
               (case grid_sample L x grid mode padding_mode of
                  Inl e \<Rightarrow> (Inl e, g')
                | Inr y \<Rightarrow> (Inr (as_3d y), g'))))"

section \<open>transforms.py: the transform objects and their store\<close>

text \<open>
  The sequences of numbers the constructors receive (\<open>scales\<close>, \<open>angles\<close>) are Python
  objects the caller keeps a reference to: a list, which can be assigned into, or a
  tuple, which cannot. They live in a store, addressed by a number; \<open>list(xs)\<close> reads the
  content.
\<close>

datatype pyseq = PyList "real list" | PyTuple "real list"

fun seq_items :: "pyseq \<Rightarrow> real list" where
  "seq_items (PyList xs) = xs"
| "seq_items (PyTuple xs) = xs"

definition seq_getitem :: "pyseq \<Rightarrow> nat \<Rightarrow> py_error + real" where
  "seq_getitem q i = py_index (seq_items q) (int i)"

fun seq_setitem :: "pyseq \<Rightarrow> nat \<Rightarrow> real \<Rightarrow> py_error + pyseq" where
  "seq_setitem (PyList xs) i v = (if i < length xs then Inr (PyList (xs[i := v])) else Inl IndexError)"
| "seq_setitem (PyTuple xs) i v = Inl TypeError"

text \<open>
  A transform object is its class with its fields: \<open>Compose\<close> holds the addresses of its
  member transforms, \<open>RandomScale\<close> and \<open>RandomRotate\<close> the address of their sequence, the
  modes and the seed, \<open>RandomAlpha\<close> \<open>sd\<close>, \<open>decay_power\<close> and \<open>colour\<close>, \<open>SpatialJitter\<close>
  \<open>pixels\<close> and the seed. The state of the program is the two generators, the store of
  sequences and the store of objects.
\<close>

datatype 's transform =
    Compose "nat list"
  | RandomScale nat string "bool option" "'s option"
  | RandomRotate nat string string "'s option"
  | RandomAlpha real real bool
  | SpatialJitter int "'s option"

record ('g, 't, 's) world =
  rng :: 'g
  torch_rng :: 't
  seqs :: "nat \<Rightarrow> pyseq"
  objs :: "nat \<Rightarrow> 's transform"

text \<open>\<open>units.lower()\<close>, on the ASCII letters.\<close>

definition lower_char :: "char \<Rightarrow> char" where
  "lower_char c =
     (case map_of (zip ''ABCDEFGHIJKLMNOPQRSTUVWXYZ'' ''abcdefghijklmnopqrstuvwxyz'') c of
        None \<Rightarrow> c
      | Some l \<Rightarrow> l)"

definition lower :: "string \<Rightarrow> string" where
  "lower u = map lower_char u"

text \<open>
  \<^verbatim>\<open>
  def __init__(self, angles, units='degrees', mode='bilinear', padding_mode='zeros', seed=None):
      if units.lower() in ['degrees', 'degs', 'deg']:
          for i in range(len(angles)):
              angles[i] = math.pi * angles[i] / 180.
      self._angles = angles
      self._mode = mode
      self._padding_mode = padding_mode
      self._seed = seed
  \<close>
  \<open>angles\<close> is the address of the caller's sequence. The loop assigns into that object,
  one index after the other; an assignment that raises ends the constructor with the
  earlier assignments made.
\<close>

fun to_radians :: "nat list \<Rightarrow> nat \<Rightarrow> (nat \<Rightarrow> pyseq) \<Rightarrow> (py_error + unit) \<times> (nat \<Rightarrow> pyseq)" where
  "to_radians [] angles S = (Inr (), S)"
| "to_radians (i # rest) angles S =
     (case seq_getitem (S angles) i of
        Inl e \<Rightarrow> (Inl e, S)
      | Inr a \<Rightarrow>
          (case seq_setitem (S angles) i (pi * a / 180) of
             Inl e \<Rightarrow> (Inl e, S)
           | Inr q \<Rightarrow> to_radians rest angles (S(angles := q))))"

definition RandomRotate_init :: "nat \<Rightarrow> nat \<Rightarrow> string \<Rightarrow> string \<Rightarrow> string \<Rightarrow> 's option \<Rightarrow> ('g, 't, 's) world \<Rightarrow> (py_error + unit) \<times> ('g, 't, 's) world" where
  "RandomRotate_init self angles units mode padding_mode seed w =
     (case (if lower units \<in> set [''degrees'', ''degs'', ''deg'']
            then to_radians [0..<length (seq_items (seqs w angles))] angles (seqs w)
            else (Inr (), seqs w)) of
        (Inl e, S) \<Rightarrow> (Inl e, w\<lparr>seqs := S\<rparr>)
      | (Inr u, S) \<Rightarrow>
          (Inr (), w\<lparr>seqs := S, objs := (objs w)(self := RandomRotate angles mode padding_mode seed)\<rparr>))"

text \<open>
  Calling a transform object: \<open>call\<close> dispatches on the class of the object at \<open>self\<close>
  and reads its fields. \<open>Compose.__call__\<close> is
  \<^verbatim>\<open>
  def __call__(self, x):
      for transform in self._transforms:
          x = transform(x)
      return x
  \<close>
  A \<open>Compose\<close> can hold another one (or itself), so the calls nest; \<open>depth\<close> is the
  number of nested calls the interpreter still allows before it raises RecursionError.
  The members are transforms of this module (the closed world of the five classes).
\<close>

fun call :: "nat \<Rightarrow> ('g, 's) random_lib \<Rightarrow> 't torch_lib \<Rightarrow> nat \<Rightarrow> tensor \<Rightarrow> ('g, 't, 's) world \<Rightarrow> (py_error + tensor) \<times> ('g, 't, 's) world"
  and Compose_call :: "nat \<Rightarrow> ('g, 's) random_lib \<Rightarrow> 't torch_lib \<Rightarrow> nat list \<Rightarrow> tensor \<Rightarrow> ('g, 't, 's) world \<Rightarrow> (py_error + tensor) \<times> ('g, 't, 's) world" where
  "call 0 R L self x w = (Inl RecursionError, w)"
| "call (Suc depth) R L self x w =
     (case objs w self of
        Compose transforms \<Rightarrow> Compose_call depth R L transforms x w
      | RandomScale scales mode align_corners seed \<Rightarrow>
          (case RandomScale_call R L (seq_items (seqs w scales)) mode align_corners seed x (rng w) of
             (res, g') \<Rightarrow> (res, w\<lparr>rng := g'\<rparr>))
      | RandomRotate angles mode padding_mode seed \<Rightarrow>
          (case RandomRotate_call R L (seq_items (seqs w angles)) mode padding_mode seed x (rng w) of
             (res, g') \<Rightarrow> (res, w\<lparr>rng := g'\<rparr>))
      | RandomAlpha sd decay_power colour \<Rightarrow>
          (case RandomAlpha_call L sd decay_power colour x (torch_rng w) of
             (res, tg') \<Rightarrow> (res, w\<lparr>torch_rng := tg'\<rparr>))
      | SpatialJitter pixels seed \<Rightarrow>
          (case SpatialJitter_call R pixels seed x (rng w) of
             (res, g') \<Rightarrow> (res, w\<lparr>rng := g'\<rparr>)))"
| "Compose_call depth R L [] x w = (Inr x, w)"
| "Compose_call depth R L (transform # rest) x w =
     (case call depth R L transform x w of
        (Inl e, w') \<Rightarrow> (Inl e, w')
      | (Inr y, w') \<Rightarrow> Compose_call depth R L rest y w')"

section \<open>models/utils.py: Storer and storer\<close>

text \<open>
  \<^verbatim>\<open>
  class Storer(torch.nn.Module):
      def __init__(self, save_state, name):
          super().__init__()
          self.save_state = save_state
          self.name = name

      def forward(self, x):
          self.save_state[self.name] = x
          return x
  \<close>
  \<open>save_state\<close> is a reference to the caller's mapping: the mappings live in a store \<open>D\<close>,
  addressed by a number, and the object holds the address. \<open>forward\<close> assigns into the
  mapping at that address and returns its argument.
\<close>

record ('n, 'v) Storer =
  save_state :: nat
  name :: 'n

definition Storer_init :: "nat \<Rightarrow> 'n \<Rightarrow> ('n, 'v) Storer" where
  "Storer_init save_state0 name0 = \<lparr>save_state = save_state0, name = name0\<rparr>"

definition Storer_forward :: "('n, 'v) Storer \<Rightarrow> 'v \<Rightarrow> (nat \<Rightarrow> 'n \<rightharpoonup> 'v) \<Rightarrow> 'v \<times> (nat \<Rightarrow> 'n \<rightharpoonup> 'v)" where
  "Storer_forward self x D = (x, D(save_state self := (D (save_state self))(name self \<mapsto> x)))"

text \<open>
  \<^verbatim>\<open>
  def storer(state, name, x):
      try:
          state[LAYER_DICT][name] = x
      except:
          state[LAYER_DICT] = {name: x}
      return x
  \<close>
  \<open>LAYER_DICT\<close> is a constant of the package (\<open>visual/__init__.py\<close>, not among the source
  files): a parameter, of the type of the keys of \<open>state\<close>. An entry of \<open>state\<close> is a
  dictionary, or an object that does not support item assignment. \<open>storer_try\<close> is the
  body of the \<open>try\<close>: the lookup raises KeyError on a missing key, and the assignment
  raises TypeError on an entry that is no dictionary.
\<close>

datatype ('n, 'v) state_entry = Dict "'n \<rightharpoonup> 'v" | Plain 'v

definition storer_try :: "'k \<Rightarrow> ('k \<rightharpoonup> ('n, 'v) state_entry) \<Rightarrow> 'n \<Rightarrow> 'v \<Rightarrow> py_error + ('k \<rightharpoonup> ('n, 'v) state_entry)" where
  "storer_try LAYER_DICT state n x =
     (case state LAYER_DICT of
        None \<Rightarrow> Inl KeyError
      | Some (Plain v) \<Rightarrow> Inl TypeError
      | Some (Dict d) \<Rightarrow> Inr (state(LAYER_DICT \<mapsto> Dict (d(n \<mapsto> x)))))"

definition storer :: "'k \<Rightarrow> ('k \<rightharpoonup> ('n, 'v) state_entry) \<Rightarrow> 'n \<Rightarrow> 'v \<Rightarrow> 'v \<times> ('k \<rightharpoonup> ('n, 'v) state_entry)" where
  "storer LAYER_DICT state n x =
     (case storer_try LAYER_DICT state n x of
        Inr state' \<Rightarrow> (x, state')
      | Inl e \<Rightarrow> (x, state(LAYER_DICT \<mapsto> Dict [n \<mapsto> x])))"

section \<open>models/utils.py: modules and relus_to_not_inplace\<close>

text \<open>
  \<^verbatim>\<open>
  _relu_classes = [torch.nn.ReLU, torch.nn.ReLU6, torch.nn.LeakyReLU, torch.nn.RReLU, torch.nn.PReLU]
  \<close>
  The class of a module is one of the five activation classes, the class \<open>BaseModel\<close>
  that \<open>basemodel\<close> returns (with the name of the class it extends), or any other class,
  a subclass of an activation included: \<open>type(m) in _relu_classes\<close> compares the class
  itself.
\<close>

datatype module_class = ReLU | ReLU6 | LeakyReLU | RReLU | PReLU | BaseModel string | OtherClass string

definition relu_classes :: "module_class list" where
  "relu_classes = [ReLU, ReLU6, LeakyReLU, RReLU, PReLU]"

text \<open>
  A module object has its class, the attribute \<open>inplace\<close> (absent on a module that was
  never given one), the addresses of its child modules, and the attributes
  \<open>layer_names\<close>, \<open>__name__\<close> and \<open>__qualname__\<close> that \<open>BaseModel\<close> sets. The objects live in
  a heap, a list addressed by position, since modules are shared and changed in place.
\<close>

record module =
  mclass :: module_class
  inplace :: "bool option"
  children :: "nat list"
  layer_names :: "string list option"
  name_attr :: "string option"
  qualname_attr :: "string option"

type_synonym mheap = "module list"

text \<open>
  \<open>model.modules()\<close> is the tensor library's traversal: it yields the module, then the
  modules of each child in turn, and skips a module it has yielded before (it keeps a
  memo). \<open>modules_from h todo memo\<close> is that traversal with the calls still to make kept
  as a list: \<open>todo\<close> holds the addresses to visit, \<open>memo\<close> the modules yielded so far, in
  order. An address outside the heap stands for an empty child slot (\<open>None\<close>), which the
  traversal skips.
\<close>

function modules_from :: "mheap \<Rightarrow> nat list \<Rightarrow> nat list \<Rightarrow> nat list" where
  "modules_from h [] memo = memo"
| "modules_from h (a # todo) memo =
     (if a < length h \<and> a \<notin> set memo
      then modules_from h (children (h ! a) @ todo) (memo @ [a])
      else modules_from h todo memo)"
  by pat_completeness auto
termination
proof (relation "measures [\<lambda>(h, todo, memo). card ({..<length h} - set memo),
                           \<lambda>(h, todo, memo). length todo]")
  show "wf (measures [\<lambda>(h, todo, memo). card ({..<length h} - set memo),
                      \<lambda>(h :: mheap, todo :: nat list, memo :: nat list). length todo])"
    by simp
next
  fix h :: mheap and a todo memo
  assume "a < length h \<and> a \<notin> set memo"
  then have "{..<length h} - set (memo @ [a]) \<subset> {..<length h} - set memo" by auto
  then have "card ({..<length h} - set (memo @ [a])) < card ({..<length h} - set memo)"
    by (intro psubset_card_mono) simp_all
  then show "((h, children (h ! a) @ todo, memo @ [a]), h, a # todo, memo)
      \<in> measures [\<lambda>(h, todo, memo). card ({..<length h} - set memo), \<lambda>(h, todo, memo). length todo]"
    by simp
next
  fix h :: mheap and a todo memo
  show "((h, todo, memo), h, a # todo, memo)
      \<in> measures [\<lambda>(h, todo, memo). card ({..<length h} - set memo), \<lambda>(h, todo, memo). length todo]"
    by simp
qed

definition modules :: "mheap \<Rightarrow> nat \<Rightarrow> nat list" where
  "modules h model = modules_from h [model] []"

text \<open>
  \<^verbatim>\<open>
  def relus_to_not_inplace(model):
      for m in model.modules():
          if type(m) in _relu_classes:
              m.inplace = False
  \<close>
  \<open>set_not_inplace\<close> is the body of the loop. The assignment changes no child list, so
  the modules the traversal yields while the loop runs are those it yields before.
\<close>

definition set_not_inplace :: "mheap \<Rightarrow> nat \<Rightarrow> mheap" where
  "set_not_inplace h m =
     (if mclass (h ! m) \<in> set relu_classes then h[m := (h ! m)\<lparr>inplace := Some False\<rparr>] else h)"

definition relus_to_not_inplace :: "mheap \<Rightarrow> nat \<Rightarrow> mheap" where
  "relus_to_not_inplace h model = foldl set_not_inplace h (modules h model)"

text \<open>
  \<^verbatim>\<open>
  def basemodel(model):
      class BaseModel(model):
          def __init__(self, layer_names, *args, **kwargs):
              super().__init__(*args, **kwargs)
              relus_to_not_inplace(self)
              self.layer_names = layer_names
              self.__name__ = model.__name__
              self.__qualname__ = model.__qualname__
          ...
      return BaseModel
  \<close>
  The class \<open>model\<close> passed in is its name, its qualified name and its constructor
  \<open>cls_init\<close>, any function that takes the new object's address, the arguments and the
  heap and returns the heap it leaves (with the submodules it built), or raises.
  \<open>basemodel model\<close> is the class returned, as the function that instantiates it: it
  allocates the object, of class \<open>BaseModel\<close>, and runs \<open>BaseModel_init\<close> on it.
\<close>

record 'a model_class =
  cls_name :: string
  cls_qualname :: string
  cls_init :: "nat \<Rightarrow> 'a \<Rightarrow> mheap \<Rightarrow> (py_error + unit) \<times> mheap"

definition BaseModel_init :: "'a model_class \<Rightarrow> nat \<Rightarrow> string list \<Rightarrow> 'a \<Rightarrow> mheap \<Rightarrow> (py_error + unit) \<times> mheap" where
  "BaseModel_init model self names args h =
     (case cls_init model self args h of
        (Inl e, h1) \<Rightarrow> (Inl e, h1)
      | (Inr u, h1) \<Rightarrow>
          (let h2 = relus_to_not_inplace h1 self;
               h3 = h2[self := (h2 ! self)\<lparr>layer_names := Some names\<rparr>];
               h4 = h3[self := (h3 ! self)\<lparr>name_attr := Some (cls_name model)\<rparr>];
               h5 = h4[self := (h4 ! self)\<lparr>qualname_attr := Some (cls_qualname model)\<rparr>]
           in (Inr (), h5)))"

definition basemodel :: "'a model_class \<Rightarrow> string list \<Rightarrow> 'a \<Rightarrow> mheap \<Rightarrow> (py_error + nat) \<times> mheap" where
  "basemodel model names args h =
     (let self = length h;
          h0 = h @ [\<lparr>mclass = BaseModel (cls_name model), inplace = None, children = [],
                     layer_names = None, name_attr = None, qualname_attr = None\<rparr>]
      in case BaseModel_init model self names args h0 of
           (Inl e, h') \<Rightarrow> (Inl e, h')
         | (Inr u, h') \<Rightarrow> (Inr self, h'))"

text \<open>
  Two heaps have the same graph when they have the same addresses and every module the
  same children, and the same modules when class and \<open>inplace\<close> agree as well.
\<close>

definition same_graph :: "mheap \<Rightarrow> mheap \<Rightarrow> bool" where
  "same_graph h h' = (length h' = length h \<and> (\<forall>a < length h. children (h' ! a) = children (h ! a)))"

definition same_modules :: "mheap \<Rightarrow> mheap \<Rightarrow> bool" where
  "same_modules h h' =
     (length h' = length h
      \<and> (\<forall>a. mclass (h' ! a) = mclass (h ! a) \<and> inplace (h' ! a) = inplace (h ! a)
              \<and> children (h' ! a) = children (h ! a)))"

section \<open>Concrete inputs\<close>

text \<open>
  For running the model: an image of three channels, five rows and six columns whose
  element at \<open>[c, i, j]\<close> has the decimal digits \<open>0.cij\<close> (and the batch of that one
  image, of shape \<open>(1, 3, 5, 6)\<close>), and a stand-in for the tensor
  library whose functions return a tensor of the documented shape (\<open>grid_sample\<close> and
  \<open>interpolate\<close> return their input, \<open>affine_grid\<close> a grid of zeros, \<open>fft_image\<close> an
  image of the requested size filled with one half).
\<close>

definition example_image :: tensor where
  "example_image =
     \<lparr>shape = [3, 5, 6], elem = (\<lambda>idx. real (100 * idx ! 0 + 10 * idx ! 1 + idx ! 2) / 1000),
      dtype = ''float32'', device = ''cpu''\<rparr>"

definition stub_torch :: "nat torch_lib" where
  "stub_torch =
     \<lparr>interpolate = (\<lambda>x scale_factor mode align_corners. Inr x),
      affine_grid = (\<lambda>theta sz. Inr (zeros [sz ! 0, sz ! 2, sz ! 3, 2] (device theta) (dtype theta))),
      grid_sample = (\<lambda>x grid mode padding_mode. Inr x),
      fft_image = (\<lambda>sz correlate sd decay_power tg.
        (Inr \<lparr>shape = map nat sz, elem = (\<lambda>idx. 1 / 2), dtype = ''float32'', device = ''cpu''\<rparr>,
         Suc tg))\<rparr>"

definition example_batch :: tensor where
  "example_batch = unsqueeze0 example_image"

text \<open>
  A state with a list of two angles in degrees at address 0 (a tuple at every other
  address) and three transform objects: a \<open>Compose\<close> at address 0 of the \<open>SpatialJitter\<close>
  at address 1 and the \<open>RandomAlpha\<close> at address 2.
\<close>

definition example_world :: "(int, nat, int) world" where
  "example_world =
     \<lparr>rng = 0, torch_rng = 0,
      seqs = (\<lambda>a. if a = 0 then PyList [90, 180] else PyTuple [1, 2]),
      objs = (\<lambda>a. if a = 0 then Compose [1, 2] else if a = 1 then SpatialJitter 2 (Some 1)
                   else if a = 2 then RandomAlpha (1 / 2) 1 True else Compose [])\<rparr>"

text \<open>
  A model class whose constructor gives the new object two children: a \<open>ReLU\<close> built
  with \<open>inplace=True\<close>, and a container holding a \<open>LeakyReLU\<close> built with \<open>inplace=True\<close>
  and the same \<open>ReLU\<close> once more.
\<close>

definition example_net :: "unit model_class" where
  "example_net =
     \<lparr>cls_name = ''Net'', cls_qualname = ''nets.Net'',
      cls_init = (\<lambda>self args h.
        (Inr (),
         h[self := (h ! self)\<lparr>children := [length h, length h + 1]\<rparr>]
         @ [\<lparr>mclass = ReLU, inplace = Some True, children = [],
              layer_names = None, name_attr = None, qualname_attr = None\<rparr>,
            \<lparr>mclass = OtherClass ''Sequential'', inplace = None, children = [length h + 2, length h],
              layer_names = None, name_attr = None, qualname_attr = None\<rparr>,
            \<lparr>mclass = LeakyReLU, inplace = Some True, children = [],
              layer_names = None, name_attr = None, qualname_attr = None\<rparr>]))\<rparr>"

section \<open>Properties of transforms.py\<close>

lemma counter_rng_in_range: "randint_in_range counter_rng"
proof -
  have "a + g mod (b - a + 1) \<le> b" if "a \<le> b" for g a b :: int
  proof -
    from that have "g mod (b - a + 1) < b - a + 1" by (intro pos_mod_bound) simp
    then show ?thesis by simp
  qed
  then show ?thesis by (simp add: randint_in_range_def counter_rng_def)
qed

lemma py_randint_range:
  assumes "randint_in_range R" and "a \<le> b"
  shows "\<exists>v g'. py_randint R a b g = (Inr v, g') \<and> a \<le> v \<and> v \<le> b"
proof -
  obtain v g' where d: "draw R g a b = (v, g')" by (cases "draw R g a b")
  from assms have "a \<le> fst (draw R g a b) \<and> fst (draw R g a b) \<le> b"
    unfolding randint_in_range_def by blast
  with d have "a \<le> v \<and> v \<le> b" by simp
  moreover from d assms(2) have "py_randint R a b g = (Inr v, g')"
    by (simp add: py_randint_def)
  ultimately show ?thesis by blast
qed

lemma py_randint_empty: "b < a \<Longrightarrow> py_randint R a b g = (Inl ValueError, g)"
  by (simp add: py_randint_def)

lemma py_index_in_range:
  "0 \<le> i \<Longrightarrow> i < int (length xs) \<Longrightarrow> py_index xs i = Inr (xs ! nat i)"
  by (simp add: py_index_def Let_def)

subsection \<open>Selection from the configured set\<close>

lemma rand_select_nonempty:
  assumes "randint_in_range R" and "xs \<noteq> []"
  shows "\<exists>idx g'. rand_index R xs seed g = (Inr idx, g') \<and> 0 \<le> idx \<and> idx \<le> int (length xs) - 1
           \<and> rand_select R xs seed g = (Inr (xs ! nat idx), g') \<and> xs ! nat idx \<in> set xs"
proof -
  from assms(2) have le: "(0::int) \<le> int (length xs) - 1" by (cases xs) simp_all
  from py_randint_range [OF assms(1) le, of "reseed R seed g"]
  obtain idx g' where r: "py_randint R 0 (int (length xs) - 1) (reseed R seed g) = (Inr idx, g')"
    and lo: "0 \<le> idx" and hi: "idx \<le> int (length xs) - 1" by blast
  from lo hi have "py_index xs idx = Inr (xs ! nat idx)" by (intro py_index_in_range) simp_all
  with r have "rand_select R xs seed g = (Inr (xs ! nat idx), g')"
    by (simp add: rand_select_def rand_index_def)
  moreover from lo hi have "xs ! nat idx \<in> set xs" by (intro nth_mem) simp
  moreover from r have "rand_index R xs seed g = (Inr idx, g')" by (simp add: rand_index_def)
  ultimately show ?thesis using lo hi by blast
qed

lemma rand_select_empty: "rand_select R [] seed g = (Inl ValueError, reseed R seed g)"
  by (simp add: rand_select_def rand_index_def py_randint_def)

text \<open>
  Claim C6. On a non-empty sequence \<open>_rand_select\<close> draws an index between \<open>0\<close> and
  \<open>len(xs) - 1\<close> and returns the element of \<open>xs\<close> at that index, so the indexing stays
  in bounds and the value returned is a member of the sequence; the same holds for
  \<open>RandomScale.get_params\<close> and \<open>RandomRotate.get_params\<close>, which return the selected
  scale or angle. On the empty sequence the selection raises (the ValueError of
  \<open>random.randint(0, -1)\<close>), after the reseeding.
\<close>

theorem rand_select_in_bounds:
  assumes "randint_in_range R"
  shows "(xs \<noteq> [] \<longrightarrow>
            (\<exists>idx g'. rand_index R xs seed g = (Inr idx, g') \<and> 0 \<le> idx \<and> idx \<le> int (length xs) - 1
               \<and> rand_select R xs seed g = (Inr (xs ! nat idx), g') \<and> xs ! nat idx \<in> set xs))
         \<and> (scales \<noteq> [] \<longrightarrow>
            (\<exists>v g'. RandomScale_get_params R scales seed g = (Inr v, g') \<and> v \<in> set scales))
         \<and> (angles \<noteq> [] \<longrightarrow>
            (\<exists>v g'. RandomRotate_get_params R angles seed g = (Inr v, g') \<and> v \<in> set angles))
         \<and> rand_select R ([] :: 'a list) seed g = (Inl ValueError, reseed R seed g)
         \<and> RandomScale_get_params R [] seed g = (Inl ValueError, reseed R seed g)
         \<and> RandomRotate_get_params R [] seed g = (Inl ValueError, reseed R seed g)"
proof -
  have sel: "\<exists>v g'. rand_select R ys seed g = (Inr v, g') \<and> v \<in> set ys" if "ys \<noteq> []" for ys :: "real list"
    using rand_select_nonempty [OF assms that, of seed g] by blast
  show ?thesis
    using rand_select_nonempty [OF assms, of xs seed g] sel [of scales] sel [of angles]
    by (simp add: RandomScale_get_params_def RandomRotate_get_params_def rand_select_empty)
qed

theorem rand_select_in_bounds_witness:
  "randint_in_range counter_rng
   \<and> (\<exists>idx g'. rand_index counter_rng [10, 20, 30 :: int] (Some 4) 0 = (Inr idx, g') \<and> 0 \<le> idx
         \<and> idx \<le> int (length [10, 20, 30 :: int]) - 1
         \<and> rand_select counter_rng [10, 20, 30 :: int] (Some 4) 0 = (Inr ([10, 20, 30] ! nat idx), g')
         \<and> [10, 20, 30 :: int] ! nat idx \<in> set [10, 20, 30])
   \<and> rand_select counter_rng [10, 20, 30 :: int] (Some 4) 0 = (Inr 20, 5)
   \<and> rand_select counter_rng ([] :: int list) (Some 4) 0 = (Inl ValueError, 4)"
proof -
  have ne: "[10, 20, 30 :: int] \<noteq> []" by simp
  from rand_select_in_bounds [OF counter_rng_in_range, of "[10, 20, 30 :: int]" "Some 4" 0 "[]" "[]"] ne
  have "\<exists>idx g'. rand_index counter_rng [10, 20, 30 :: int] (Some 4) 0 = (Inr idx, g') \<and> 0 \<le> idx
         \<and> idx \<le> int (length [10, 20, 30 :: int]) - 1
         \<and> rand_select counter_rng [10, 20, 30 :: int] (Some 4) 0 = (Inr ([10, 20, 30] ! nat idx), g')
         \<and> [10, 20, 30 :: int] ! nat idx \<in> set [10, 20, 30]"
    by blast
  moreover have "rand_select counter_rng [10, 20, 30 :: int] (Some 4) 0 = (Inr 20, 5)"
    by (simp add: rand_select_def rand_index_def py_randint_def reseed_def counter_rng_def
        py_index_def)
  moreover have "rand_select counter_rng ([] :: int list) (Some 4) 0 = (Inl ValueError, 4)"
    by (simp add: rand_select_empty reseed_def counter_rng_def)
  ultimately show ?thesis using counter_rng_in_range by blast
qed

subsection \<open>SpatialJitter crops a window of fixed size\<close>

lemma slice_range_inner:
  assumes "0 \<le> x0" and "x0 \<le> p" and "p \<le> int n"
  shows "slice_range n x0 (int n - (p - x0)) = (nat x0, n - nat p)"
  using assms by (auto simp: slice_range_def slice_bound_def)

lemma SpatialJitter_get_params_range:
  assumes "randint_in_range R" and "0 \<le> p"
  shows "\<exists>x0 y0 g'. SpatialJitter_get_params R p seed g = (Inr (x0, y0), g')
           \<and> 0 \<le> x0 \<and> x0 \<le> p \<and> 0 \<le> y0 \<and> y0 \<le> p"
proof -
  from py_randint_range [OF assms, of "reseed R seed g"]
  obtain x0 g1 where a: "py_randint R 0 p (reseed R seed g) = (Inr x0, g1)" "0 \<le> x0" "x0 \<le> p"
    by blast
  from py_randint_range [OF assms, of g1]
  obtain y0 g2 where b: "py_randint R 0 p g1 = (Inr y0, g2)" "0 \<le> y0" "y0 \<le> p"
    by blast
  from a b show ?thesis by (simp add: SpatialJitter_get_params_def)
qed

text \<open>
  Claim C4. For an image of shape \<open>(C, H, W)\<close> and \<open>0 \<le> p \<le> min(H, W)\<close>, the call draws
  offsets \<open>x0\<close> and \<open>y0\<close> in \<open>0..p\<close> and returns the slice
  \<open>img[:, x0 : H-(p-x0), y0 : W-(p-y0)]\<close>: its shape is \<open>(C, H-p, W-p)\<close> whatever the
  offsets, and its element at \<open>[c, i, j]\<close> is the image's at \<open>[c, i+x0, j+y0]\<close>.
\<close>

theorem SpatialJitter_crops:
  assumes "randint_in_range R" and "shape img = [C, H, W]" and "0 \<le> p" and "p \<le> int (min H W)"
  shows "\<exists>x0 y0 g' out.
           SpatialJitter_get_params R p seed g = (Inr (x0, y0), g')
           \<and> 0 \<le> x0 \<and> x0 \<le> p \<and> 0 \<le> y0 \<and> y0 \<le> p
           \<and> SpatialJitter_call R p seed img g = (Inr out, g')
           \<and> slice_hw img x0 (int H - (p - x0)) y0 (int W - (p - y0)) = Inr out
           \<and> shape out = [C, H - nat p, W - nat p]
           \<and> (\<forall>c i j. elem out [c, i, j] = elem img [c, i + nat x0, j + nat y0])"
proof -
  from SpatialJitter_get_params_range [OF assms(1,3), of seed g]
  obtain x0 y0 g' where gp: "SpatialJitter_get_params R p seed g = (Inr (x0, y0), g')"
    and x0: "0 \<le> x0" "x0 \<le> p" and y0: "0 \<le> y0" "y0 \<le> p" by blast
  from assms(4) have pH: "p \<le> int H" and pW: "p \<le> int W" by simp_all
  define out where "out = img\<lparr>shape := [C, H - nat p, W - nat p],
      elem := (\<lambda>idx. elem img (idx[1 := idx ! 1 + nat x0, 2 := idx ! 2 + nat y0]))\<rparr>"
  have sl: "slice_hw img x0 (int H - (p - x0)) y0 (int W - (p - y0)) = Inr out"
    using assms(2) slice_range_inner [OF x0 pH] slice_range_inner [OF y0 pW]
    by (simp add: slice_hw_def out_def)
  have d3: "as_3d img = img" using assms(2) by (simp add: as_3d_def dim_def)
  have call: "SpatialJitter_call R p seed img g = (Inr out, g')"
    using gp sl assms(2) by (simp add: SpatialJitter_call_def d3 tsize_def dim_def)
  have "shape out = [C, H - nat p, W - nat p]" by (simp add: out_def)
  moreover have "\<forall>c i j. elem out [c, i, j] = elem img [c, i + nat x0, j + nat y0]"
    by (simp add: out_def)
  ultimately show ?thesis using gp x0 y0 call sl by blast
qed

theorem SpatialJitter_crops_witness:
  "randint_in_range counter_rng \<and> shape example_image = [3, 5, 6] \<and> (0::int) \<le> 2
   \<and> (2::int) \<le> int (min 5 6)
   \<and> (\<exists>out. SpatialJitter_call counter_rng 2 (Some 1) example_image 0 = (Inr out, 3)
         \<and> slice_hw example_image 1 (int 5 - (2 - 1)) 2 (int 6 - (2 - 2)) = Inr out
         \<and> shape out = [3, 3, 4] \<and> elem out [0, 0, 0] = 12 / 1000)"
proof -
  have sh: "shape example_image = [3, 5, 6]" by (simp add: example_image_def)
  have p0: "(0::int) \<le> 2" and p1: "(2::int) \<le> int (min 5 6)" by simp_all
  have gp: "SpatialJitter_get_params counter_rng 2 (Some 1) 0 = (Inr (1, 2), 3)"
    by (simp add: SpatialJitter_get_params_def py_randint_def reseed_def counter_rng_def)
  from SpatialJitter_crops [OF counter_rng_in_range sh p0 p1, of "Some 1" 0]
  obtain out where c: "SpatialJitter_call counter_rng 2 (Some 1) example_image 0 = (Inr out, 3)"
    and s: "slice_hw example_image 1 (int 5 - (2 - 1)) 2 (int 6 - (2 - 2)) = Inr out"
    and sho: "shape out = [3, 5 - nat 2, 6 - nat 2]"
    and el: "\<forall>c i j. elem out [c, i, j] = elem example_image [c, i + nat 1, j + nat 2]"
    unfolding gp by auto
  from el have "elem out [0, 0, 0] = elem example_image [0, 0 + nat 1, 0 + nat 2]" by blast
  then have e0: "elem out [0, 0, 0] = 12 / 1000" by (simp add: example_image_def)
  from sho have "shape out = [3, 3, 4]" by simp
  with c s e0 show ?thesis using counter_rng_in_range sh by auto
qed

subsection \<open>RandomAlpha composites over a random image\<close>

lemma broadcast_shapes3_same: "broadcast_shapes [a, b, c] [a, b, c] = Some [a, b, c]"
  by (simp add: broadcast_shapes_def broadcast_dim_def)

lemma broadcast_shapes3_one: "broadcast_shapes [Suc 0, b, c] [a, b, c] = Some [a, b, c]"
  by (simp add: broadcast_shapes_def broadcast_dim_def)

lemma broadcast_index3:
  "i < a \<Longrightarrow> j < b \<Longrightarrow> k < c \<Longrightarrow> broadcast_index [a, b, c] [i, j, k] = [i, j, k]"
  by (auto simp: broadcast_index_def)

lemma broadcast_index3_one:
  "j < b \<Longrightarrow> k < c \<Longrightarrow> broadcast_index [Suc 0, b, c] [i, j, k] = [0, j, k]"
  by (auto simp: broadcast_index_def)

lemma select_last3:
  assumes "shape x = [C, H, W]" and "0 < C"
  shows "select_last x = Inr (x\<lparr>shape := [H, W], elem := (\<lambda>idx. elem x ((C - 1) # idx))\<rparr>)"
  using assms by (simp add: select_last_def)

lemma drop_last3:
  assumes "shape x = [C, H, W]"
  shows "drop_last x = Inr (x\<lparr>shape := [C - 1, H, W], elem := (\<lambda>idx. elem x (idx[0 := idx ! 0 + 0]))\<rparr>)"
proof -
  have "slice_range C 0 (- 1) = (0, C - 1)"
    by (auto simp: slice_range_def slice_bound_def)
  with assms show ?thesis by (simp add: drop_last_def)
qed

lemma repeat_channels:
  assumes "shape t = [H, W]" and "0 \<le> n"
  shows "repeat [n, 1, 1] t =
           Inr (t\<lparr>shape := [nat n, H, W],
                  elem := (\<lambda>idx. elem t (drop 1 (map2 (\<lambda>i n. i mod n) idx [1, H, W])))\<rparr>)"
  using assms by (simp add: repeat_def dim_def Let_def)

text \<open>
  Claim C5. For an input of shape \<open>(C, H, W)\<close> with \<open>C \<ge> 2\<close>, when the synthesized image
  \<open>r\<close> has the size the call asked for: \<open>alpha\<close> is the last channel of \<open>x\<close> repeated over
  \<open>C - 1\<close> channels, \<open>front\<close> is \<open>x[:-1]\<close>, and the result is
  \<open>front * alpha + r * (1 - alpha)\<close> elementwise, on the device of \<open>x\<close>, with \<open>C - 1\<close>
  channels and the spatial size of \<open>x\<close>. (With \<open>colour\<close> off the random image has one
  channel, used for every channel of the result.)
\<close>

theorem RandomAlpha_composite:
  assumes x: "shape x = [C, H, W]" and C: "2 \<le> C"
    and fft: "fft_image L [if colour then int C - 1 else 1, int H, int W] colour sd decay_power tg = (Inr r, tg')"
    and r: "shape r = [if colour then C - 1 else 1, H, W]"
  shows "\<exists>out x_last alpha front.
           RandomAlpha_call L sd decay_power colour x tg = (Inr out, tg')
           \<and> select_last x = Inr x_last \<and> repeat [int C - 1, 1, 1] x_last = Inr alpha
           \<and> shape alpha = [C - 1, H, W]
           \<and> (\<forall>c i j. i < H \<longrightarrow> j < W \<longrightarrow> elem alpha [c, i, j] = elem x [C - 1, i, j])
           \<and> drop_last x = Inr front \<and> shape front = [C - 1, H, W]
           \<and> (\<forall>c i j. elem front [c, i, j] = elem x [c, i, j])
           \<and> shape out = [C - 1, H, W] \<and> device out = device x
           \<and> (\<forall>c i j. c < C - 1 \<longrightarrow> i < H \<longrightarrow> j < W \<longrightarrow>
                 elem out [c, i, j] =
                   elem front [c, i, j] * elem alpha [c, i, j]
                   + elem r [if colour then c else 0, i, j] * (1 - elem alpha [c, i, j]))"
proof -
  define x_last where "x_last = x\<lparr>shape := [H, W], elem := (\<lambda>idx. elem x ((C - 1) # idx))\<rparr>"
  define alpha where "alpha = x_last\<lparr>shape := [C - 1, H, W],
      elem := (\<lambda>idx. elem x_last (drop 1 (map2 (\<lambda>i n. i mod n) idx [1, H, W])))\<rparr>"
  define front where "front = x\<lparr>shape := [C - 1, H, W], elem := (\<lambda>idx. elem x (idx[0 := idx ! 0 + 0]))\<rparr>"
  define r1 where "r1 = to_device (device x) r"
  from C have Cpos: "0 < C" by simp
  have sl: "select_last x = Inr x_last"
    using select_last3 [OF x Cpos] by (simp add: x_last_def)
  have "shape x_last = [H, W]" by (simp add: x_last_def)
  moreover from C have "(0::int) \<le> int C - 1" by simp
  ultimately have rp: "repeat [int C - 1, 1, 1] x_last = Inr alpha"
    using repeat_channels [of x_last H W "int C - 1"] C by (simp add: alpha_def nat_diff_distrib)
  have dl: "drop_last x = Inr front" using drop_last3 [OF x] by (simp add: front_def)
  have d3: "as_3d x = x" using x by (simp add: as_3d_def dim_def)
  have sz: "RandomAlpha_size colour x = Inr [if colour then int C - 1 else 1, int H, int W]"
    using x by (simp add: RandomAlpha_size_def)
  have t0: "tsize x 0 = Inr C" using x by (simp add: tsize_def dim_def)
  have sha: "shape alpha = [C - 1, H, W]" by (simp add: alpha_def)
  have shf: "shape front = [C - 1, H, W]" by (simp add: front_def)
  have dev: "device front = device x" "device alpha = device x" "device r1 = device x"
    by (simp_all add: front_def alpha_def x_last_def r1_def to_device_def)
  have shr: "shape r1 = [if colour then C - 1 else 1, H, W]" using r by (simp add: r1_def to_device_def)
  define image1 where "image1 = front\<lparr>shape := [C - 1, H, W],
      elem := (\<lambda>idx. elem front (broadcast_index (shape front) idx) * elem alpha (broadcast_index (shape alpha) idx))\<rparr>"
  have m1: "tensor_mul front alpha = Inr image1"
    by (simp add: tensor_mul_def tensor_binop_def dev sha shf broadcast_shapes3_same image1_def)
  define one_minus where "one_minus = scalar_minus 1 alpha"
  have shm: "shape one_minus = [C - 1, H, W]" "device one_minus = device x"
    by (simp_all add: one_minus_def scalar_minus_def sha dev)
  define random_image1 where "random_image1 = r1\<lparr>shape := [C - 1, H, W],
      elem := (\<lambda>idx. elem r1 (broadcast_index (shape r1) idx) * elem one_minus (broadcast_index (shape one_minus) idx))\<rparr>"
  have m2: "tensor_mul r1 one_minus = Inr random_image1"
    by (cases colour)
      (simp_all add: tensor_mul_def tensor_binop_def dev shm shr broadcast_shapes3_same
        broadcast_shapes3_one random_image1_def)
  define out where "out = image1\<lparr>shape := [C - 1, H, W],
      elem := (\<lambda>idx. elem image1 (broadcast_index (shape image1) idx) + elem random_image1 (broadcast_index (shape random_image1) idx))\<rparr>"
  have m3: "tensor_add image1 random_image1 = Inr out"
    by (simp add: tensor_add_def tensor_binop_def image1_def random_image1_def dev r1_def
        to_device_def broadcast_shapes3_same out_def)
  have blend: "RandomAlpha_blend x r1 = Inr out"
    by (simp add: RandomAlpha_blend_def sl t0 rp dl m1 m2 [unfolded one_minus_def] m3)
  have call: "RandomAlpha_call L sd decay_power colour x tg = (Inr out, tg')"
    by (simp add: RandomAlpha_call_def d3 sz fft blend [unfolded r1_def])
  have ea: "\<forall>c i j. i < H \<longrightarrow> j < W \<longrightarrow> elem alpha [c, i, j] = elem x [C - 1, i, j]"
    by (simp add: alpha_def x_last_def)
  have ef: "\<forall>c i j. elem front [c, i, j] = elem x [c, i, j]"
    by (simp add: front_def)
  have sho: "shape out = [C - 1, H, W]" by (simp add: out_def)
  have devo: "device out = device x" by (simp add: out_def image1_def dev)
  have eo: "elem out [c, i, j] =
              elem front [c, i, j] * elem alpha [c, i, j]
              + elem r [if colour then c else 0, i, j] * (1 - elem alpha [c, i, j])"
    if "c < C - 1" "i < H" "j < W" for c i j
  proof -
    have bi: "broadcast_index [C - 1, H, W] [c, i, j] = [c, i, j]"
      using that by (rule broadcast_index3)
    have br: "broadcast_index (shape r1) [c, i, j] = [if colour then c else 0, i, j]"
      using that by (cases colour) (simp_all add: shr broadcast_index3 broadcast_index3_one)
    have rr: "elem r1 = elem r" "elem one_minus [c, i, j] = 1 - elem alpha [c, i, j]"
      by (simp_all add: r1_def to_device_def one_minus_def scalar_minus_def)
    have "elem out [c, i, j] =
            elem image1 (broadcast_index [C - 1, H, W] [c, i, j])
            + elem random_image1 (broadcast_index [C - 1, H, W] [c, i, j])"
      by (simp add: out_def image1_def random_image1_def)
    also have "\<dots> = elem image1 [c, i, j] + elem random_image1 [c, i, j]"
      using bi by simp
    also have "elem image1 [c, i, j] = elem front [c, i, j] * elem alpha [c, i, j]"
      using bi by (simp add: image1_def shf sha)
    also have "elem random_image1 [c, i, j] =
        elem r [if colour then c else 0, i, j] * (1 - elem alpha [c, i, j])"
      using bi br rr by (simp add: random_image1_def shm)
    finally show ?thesis .
  qed
  show ?thesis
    using call sl rp sha ea dl shf ef sho devo eo by blast
qed

theorem RandomAlpha_composite_witness:
  "shape example_image = [3, 5, 6] \<and> (2::nat) \<le> 3
   \<and> (\<exists>r. fft_image stub_torch [if True then int 3 - 1 else 1, int 5, int 6] True (1 / 2) 1 0 = (Inr r, 1)
         \<and> shape r = [if True then 3 - 1 else 1, 5, 6])
   \<and> (\<exists>out. RandomAlpha_call stub_torch (1 / 2) 1 True example_image 0 = (Inr out, 1)
         \<and> shape out = [2, 5, 6] \<and> device out = ''cpu''
         \<and> elem out [1, 2, 3] = 415929 / 1000000)"
proof -
  define r where "r = \<lparr>shape = [2, 5, 6], elem = (\<lambda>idx :: nat list. 1 / 2 :: real), dtype = ''float32'', device = ''cpu''\<rparr>"
  have sh: "shape example_image = [3, 5, 6]" by (simp add: example_image_def)
  have C: "(2::nat) \<le> 3" by simp
  have fft: "fft_image stub_torch [if True then int 3 - 1 else 1, int 5, int 6] True (1 / 2) 1 0 = (Inr r, 1)"
    by (simp add: stub_torch_def r_def)
  have shr: "shape r = [if True then 3 - 1 else 1, 5, 6]" by (simp add: r_def)
  from RandomAlpha_composite [OF sh C fft shr]
  obtain out x_last alpha front where
    "RandomAlpha_call stub_torch (1 / 2) 1 True example_image 0 = (Inr out, 1)
     \<and> select_last example_image = Inr x_last \<and> repeat [int 3 - 1, 1, 1] x_last = Inr alpha
     \<and> shape alpha = [3 - 1, 5, 6]
     \<and> (\<forall>c i j. i < 5 \<longrightarrow> j < 6 \<longrightarrow> elem alpha [c, i, j] = elem example_image [3 - 1, i, j])
     \<and> drop_last example_image = Inr front \<and> shape front = [3 - 1, 5, 6]
     \<and> (\<forall>c i j. elem front [c, i, j] = elem example_image [c, i, j])
     \<and> shape out = [3 - 1, 5, 6] \<and> device out = device example_image
     \<and> (\<forall>c i j. c < 3 - 1 \<longrightarrow> i < 5 \<longrightarrow> j < 6 \<longrightarrow>
           elem out [c, i, j] =
             elem front [c, i, j] * elem alpha [c, i, j]
             + elem r [if True then c else 0, i, j] * (1 - elem alpha [c, i, j]))"
    by (elim exE) (rule that)
  then have c: "RandomAlpha_call stub_torch (1 / 2) 1 True example_image 0 = (Inr out, 1)"
    and ea: "\<forall>c i j. i < 5 \<longrightarrow> j < 6 \<longrightarrow> elem alpha [c, i, j] = elem example_image [3 - 1, i, j]"
    and ef: "\<forall>c i j. elem front [c, i, j] = elem example_image [c, i, j]"
    and sho: "shape out = [3 - 1, 5, 6]" and dev: "device out = device example_image"
    and eo: "\<forall>c i j. c < 3 - 1 \<longrightarrow> i < 5 \<longrightarrow> j < 6 \<longrightarrow>
                 elem out [c, i, j] =
                   elem front [c, i, j] * elem alpha [c, i, j]
                   + elem r [if True then c else 0, i, j] * (1 - elem alpha [c, i, j])"
    by blast+
  have a: "elem alpha [1, 2, 3] = 223 / 1000" using ea by (simp add: example_image_def)
  have f: "elem front [1, 2, 3] = 123 / 1000" using ef by (simp add: example_image_def)
  have rr: "elem r [1, 2, 3] = 1 / 2" by (simp add: r_def)
  from eo have "elem out [1, 2, 3] =
      elem front [1, 2, 3] * elem alpha [1, 2, 3] + elem r [1, 2, 3] * (1 - elem alpha [1, 2, 3])"
    by simp
  then have e: "elem out [1, 2, 3] = 415929 / 1000000" unfolding a f rr by simp
  from sho have "shape out = [2, 5, 6]" by simp
  moreover from dev have "device out = ''cpu''" by (simp add: example_image_def)
  ultimately show ?thesis using sh c e fft shr by auto
qed

subsection \<open>RandomRotate: the conversion to radians\<close>

lemma lower_examples: "lower ''Degrees'' = ''degrees''" "lower ''DEG'' = ''deg''" "lower ''radians'' = ''radians''"
  by (simp_all add: lower_def lower_char_def)

lemma converted_prefix_step:
  assumes "k < length as"
  shows "(map f (take k as) @ drop k as)[k := f (as ! k)] = map f (take (Suc k) as) @ drop (Suc k) as"
proof -
  from assms have d: "drop k as = as ! k # drop (Suc k) as" by (simp add: Cons_nth_drop_Suc)
  from assms have l: "length (map f (take k as)) = k" by simp
  have "(map f (take k as) @ drop k as)[k := f (as ! k)]
          = map f (take k as) @ (drop k as)[0 := f (as ! k)]"
    using l by (simp add: list_update_append)
  also have "\<dots> = map f (take k as) @ f (as ! k) # drop (Suc k) as" by (simp add: d)
  also have "\<dots> = map f (take (Suc k) as) @ drop (Suc k) as"
    using assms by (simp add: take_Suc_conv_app_nth)
  finally show ?thesis .
qed

lemma to_radians_upt:
  assumes "S angles = PyList (map (\<lambda>a. pi * a / 180) (take k as) @ drop k as)" and "k \<le> length as"
  shows "to_radians [k..<length as] angles S = (Inr (), S(angles := PyList (map (\<lambda>a. pi * a / 180) as)))"
  using assms
proof (induction "length as - k" arbitrary: k S)
  case 0
  then have "k = length as" by simp
  with "0.prems" show ?case by (simp add: fun_upd_idem)
next
  case (Suc n)
  then have lt: "k < length as" by simp
  let ?f = "\<lambda>a. pi * a / 180"
  let ?cur = "map ?f (take k as) @ drop k as"
  have g: "seq_getitem (S angles) k = Inr (as ! k)"
    using lt Suc.prems(1) by (simp add: seq_getitem_def py_index_def nth_append)
  have st: "seq_setitem (S angles) k (?f (as ! k)) = Inr (PyList (map ?f (take (Suc k) as) @ drop (Suc k) as))"
    using lt Suc.prems(1) converted_prefix_step [OF lt, of ?f] by simp
  let ?S' = "S(angles := PyList (map ?f (take (Suc k) as) @ drop (Suc k) as))"
  have "to_radians [Suc k..<length as] angles ?S' = (Inr (), ?S'(angles := PyList (map ?f as)))"
    using Suc.hyps(2) lt by (intro Suc.hyps(1)) simp_all
  moreover have "[k..<length as] = k # [Suc k..<length as]" using lt by (simp add: upt_conv_Cons)
  ultimately show ?case using g st by simp
qed

lemma to_radians_list:
  assumes "S angles = PyList as"
  shows "to_radians [0..<length as] angles S = (Inr (), S(angles := PyList (map (\<lambda>a. pi * a / 180) as)))"
  using to_radians_upt [of S angles 0 as] assms by simp

text \<open>
  Claim C9. When \<open>angles\<close> is a list with the entries \<open>as\<close>: if the lower-cased \<open>units\<close> is
  one of \<open>degrees\<close>, \<open>degs\<close>, \<open>deg\<close>, the constructor overwrites every entry \<open>a\<close> of that
  list with \<open>pi * a / 180\<close>, in the caller's object; for any other \<open>units\<close> the store of
  sequences is unchanged. In both cases the object constructed at \<open>self\<close> holds the address
  \<open>angles\<close> itself, so it aliases the caller's list.
\<close>

theorem RandomRotate_init_converts_in_place:
  assumes "seqs w angles = PyList as"
  shows "(lower units \<in> {''degrees'', ''degs'', ''deg''} \<longrightarrow>
            RandomRotate_init self angles units mode padding_mode seed w =
              (Inr (), w\<lparr>seqs := (seqs w)(angles := PyList (map (\<lambda>a. pi * a / 180) as)),
                         objs := (objs w)(self := RandomRotate angles mode padding_mode seed)\<rparr>))
         \<and> (lower units \<notin> {''degrees'', ''degs'', ''deg''} \<longrightarrow>
            RandomRotate_init self angles units mode padding_mode seed w =
              (Inr (), w\<lparr>objs := (objs w)(self := RandomRotate angles mode padding_mode seed)\<rparr>))"
  using to_radians_list [of "seqs w" angles as] assms
  by (simp add: RandomRotate_init_def)

theorem RandomRotate_init_converts_in_place_witness:
  "seqs example_world 0 = PyList [90, 180]
   \<and> lower ''Degrees'' \<in> {''degrees'', ''degs'', ''deg''}
   \<and> RandomRotate_init 5 0 ''Degrees'' ''bilinear'' ''zeros'' None example_world =
        (Inr (), example_world\<lparr>seqs := (seqs example_world)(0 := PyList (map (\<lambda>a. pi * a / 180) [90, 180])),
                   objs := (objs example_world)(5 := RandomRotate 0 ''bilinear'' ''zeros'' None)\<rparr>)
   \<and> lower ''rad'' \<notin> {''degrees'', ''degs'', ''deg''}
   \<and> RandomRotate_init 5 0 ''rad'' ''bilinear'' ''zeros'' None example_world =
        (Inr (), example_world\<lparr>objs := (objs example_world)(5 := RandomRotate 0 ''bilinear'' ''zeros'' None)\<rparr>)"
proof -
  have s: "seqs example_world 0 = PyList [90, 180]" by (simp add: example_world_def)
  have d: "lower ''Degrees'' \<in> {''degrees'', ''degs'', ''deg''}"
    by (simp add: lower_def lower_char_def)
  have r: "lower ''rad'' \<notin> {''degrees'', ''degs'', ''deg''}"
    by (simp add: lower_def lower_char_def)
  from RandomRotate_init_converts_in_place [OF s, of "''Degrees''" 5 "''bilinear''" "''zeros''" None] d
  have a: "RandomRotate_init 5 0 ''Degrees'' ''bilinear'' ''zeros'' None example_world =
        (Inr (), example_world\<lparr>seqs := (seqs example_world)(0 := PyList (map (\<lambda>a. pi * a / 180) [90, 180])),
                   objs := (objs example_world)(5 := RandomRotate 0 ''bilinear'' ''zeros'' None)\<rparr>)"
    by blast
  from RandomRotate_init_converts_in_place [OF s, of "''rad''" 5 "''bilinear''" "''zeros''" None] r
  have b: "RandomRotate_init 5 0 ''rad'' ''bilinear'' ''zeros'' None example_world =
        (Inr (), example_world\<lparr>objs := (objs example_world)(5 := RandomRotate 0 ''bilinear'' ''zeros'' None)\<rparr>)"
    by blast
  from s d r a b show ?thesis by blast
qed

subsection \<open>RandomRotate: one affine-grid sampling\<close>

lemma rotation_theta_entries:
  "shape (rotation_theta a dev dt) = [1, 2, 3]"
  "device (rotation_theta a dev dt) = dev"
  "dtype (rotation_theta a dev dt) = dt"
  "elem (rotation_theta a dev dt) [0, 0, 0] = cos a"
  "elem (rotation_theta a dev dt) [0, 0, 1] = sin a"
  "elem (rotation_theta a dev dt) [0, 0, 2] = 0"
  "elem (rotation_theta a dev dt) [0, 1, 0] = - sin a"
  "elem (rotation_theta a dev dt) [0, 1, 1] = cos a"
  "elem (rotation_theta a dev dt) [0, 1, 2] = 0"
  by (simp_all add: rotation_theta_def zeros_def tensor_set_def)

text \<open>
  Claim C3, as the code has it. For a 4D input and a non-empty set of angles, the call
  selects an angle \<open>a\<close> of the set and builds \<open>theta\<close> of shape \<open>(1, 2, 3)\<close>, in the dtype and
  on the device of the input, with the rows \<open>[cos a, sin a, 0]\<close> and \<open>[-sin a, cos a, 0]\<close>.
  It calls \<open>affine_grid(theta, x.size())\<close> and \<open>grid_sample\<close> with the configured mode and
  padding mode once each, and returns \<open>_as_3d\<close> of the sample: the sampled tensor with its
  first dimension squeezed when that has size 1. An exception of either library call is
  the outcome of the call.
\<close>

theorem RandomRotate_samples_then_squeezes:
  assumes "randint_in_range R" and "angles \<noteq> []" and "dim x = 4"
  shows "\<exists>a g'. RandomRotate_get_params R angles seed g = (Inr a, g') \<and> a \<in> set angles
           \<and> shape (rotation_theta a (device x) (dtype x)) = [1, 2, 3]
           \<and> device (rotation_theta a (device x) (dtype x)) = device x
           \<and> dtype (rotation_theta a (device x) (dtype x)) = dtype x
           \<and> map (\<lambda>j. elem (rotation_theta a (device x) (dtype x)) [0, 0, j]) [0, 1, 2] = [cos a, sin a, 0]
           \<and> map (\<lambda>j. elem (rotation_theta a (device x) (dtype x)) [0, 1, j]) [0, 1, 2] = [- sin a, cos a, 0]
           \<and> RandomRotate_call R L angles mode padding_mode seed x g =
               (case affine_grid L (rotation_theta a (device x) (dtype x)) (shape x) of
                  Inl e \<Rightarrow> (Inl e, g')
                | Inr grid \<Rightarrow>
                    (case grid_sample L x grid mode padding_mode of
                       Inl e \<Rightarrow> (Inl e, g')
                     | Inr y \<Rightarrow> (Inr (as_3d y), g')))"
proof -
  from rand_select_nonempty [OF assms(1,2), of seed g]
  obtain a g' where gp: "RandomRotate_get_params R angles seed g = (Inr a, g')" and mem: "a \<in> set angles"
    unfolding RandomRotate_get_params_def by blast
  have x4: "as_4d x = x" using assms(3) by (simp add: as_4d_def)
  have "RandomRotate_call R L angles mode padding_mode seed x g =
               (case affine_grid L (rotation_theta a (device x) (dtype x)) (shape x) of
                  Inl e \<Rightarrow> (Inl e, g')
                | Inr grid \<Rightarrow>
                    (case grid_sample L x grid mode padding_mode of
                       Inl e \<Rightarrow> (Inl e, g')
                     | Inr y \<Rightarrow> (Inr (as_3d y), g')))"
    by (simp add: RandomRotate_call_def x4 gp Let_def)
  with gp mem show ?thesis
    using rotation_theta_entries [of a "device x" "dtype x"] by simp
qed

theorem RandomRotate_samples_then_squeezes_witness:
  "randint_in_range counter_rng \<and> [0 :: real] \<noteq> [] \<and> dim example_batch = 4
   \<and> (\<exists>a g'. RandomRotate_get_params counter_rng [0] None (0::int) = (Inr a, g') \<and> a \<in> set [0]
         \<and> shape (rotation_theta a (device example_batch) (dtype example_batch)) = [1, 2, 3]
         \<and> map (\<lambda>j. elem (rotation_theta a (device example_batch) (dtype example_batch)) [0, 0, j]) [0, 1, 2]
             = [cos a, sin a, 0]
         \<and> map (\<lambda>j. elem (rotation_theta a (device example_batch) (dtype example_batch)) [0, 1, j]) [0, 1, 2]
             = [- sin a, cos a, 0]
         \<and> RandomRotate_call counter_rng stub_torch [0] ''bilinear'' ''zeros'' None example_batch 0
             = (Inr (as_3d example_batch), g'))"
proof -
  have ne: "[0 :: real] \<noteq> []" by simp
  have sh: "shape example_batch = [1, 3, 5, 6]"
    by (simp add: example_batch_def unsqueeze0_def example_image_def)
  then have d: "dim example_batch = 4" by (simp add: dim_def)
  from RandomRotate_samples_then_squeezes [OF counter_rng_in_range ne d,
      of None 0 stub_torch "''bilinear''" "''zeros''"]
  obtain a g' where
    "RandomRotate_get_params counter_rng [0] None (0::int) = (Inr a, g') \<and> a \<in> set [0]
     \<and> shape (rotation_theta a (device example_batch) (dtype example_batch)) = [1, 2, 3]
     \<and> device (rotation_theta a (device example_batch) (dtype example_batch)) = device example_batch
     \<and> dtype (rotation_theta a (device example_batch) (dtype example_batch)) = dtype example_batch
     \<and> map (\<lambda>j. elem (rotation_theta a (device example_batch) (dtype example_batch)) [0, 0, j]) [0, 1, 2]
         = [cos a, sin a, 0]
     \<and> map (\<lambda>j. elem (rotation_theta a (device example_batch) (dtype example_batch)) [0, 1, j]) [0, 1, 2]
         = [- sin a, cos a, 0]
     \<and> RandomRotate_call counter_rng stub_torch [0] ''bilinear'' ''zeros'' None example_batch 0 =
         (case affine_grid stub_torch (rotation_theta a (device example_batch) (dtype example_batch))
                 (shape example_batch) of
            Inl e \<Rightarrow> (Inl e, g')
          | Inr grid \<Rightarrow>
              (case grid_sample stub_torch example_batch grid ''bilinear'' ''zeros'' of
                 Inl e \<Rightarrow> (Inl e, g')
               | Inr y \<Rightarrow> (Inr (as_3d y), g')))"
    by (elim exE) (rule that)
  moreover have "(case affine_grid stub_torch t (shape example_batch) of
            Inl e \<Rightarrow> (Inl e, g')
          | Inr grid \<Rightarrow>
              (case grid_sample stub_torch example_batch grid ''bilinear'' ''zeros'' of
                 Inl e \<Rightarrow> (Inl e, g')
               | Inr y \<Rightarrow> (Inr (as_3d y), g'))) = (Inr (as_3d example_batch), g')" for t
    by (simp add: stub_torch_def)
  ultimately show ?thesis using counter_rng_in_range ne d by auto
qed

text \<open>
  The claim as the specification states it, that the call returns the tensor
  \<open>grid_sample\<close> returned, fails on a batch of one image: the sample has the four
  dimensions of the input, the result has three.
\<close>

theorem RandomRotate_result_is_not_the_sample:
  "dim example_batch = 4 \<and> shape example_batch = [1, 3, 5, 6]
   \<and> affine_grid stub_torch (rotation_theta 0 ''cpu'' ''float32'') (shape example_batch)
       = Inr (zeros [1, 5, 6, 2] ''cpu'' ''float32'')
   \<and> grid_sample stub_torch example_batch (zeros [1, 5, 6, 2] ''cpu'' ''float32'') ''bilinear'' ''zeros''
       = Inr example_batch
   \<and> fst (RandomRotate_call counter_rng stub_torch [0] ''bilinear'' ''zeros'' None example_batch 0)
       = Inr (as_3d example_batch)
   \<and> shape (as_3d example_batch) = [3, 5, 6]
   \<and> fst (RandomRotate_call counter_rng stub_torch [0] ''bilinear'' ''zeros'' None example_batch 0)
       \<noteq> grid_sample stub_torch example_batch (zeros [1, 5, 6, 2] ''cpu'' ''float32'') ''bilinear'' ''zeros''"
proof -
  have sh: "shape example_batch = [1, 3, 5, 6]" "device example_batch = ''cpu''" "dtype example_batch = ''float32''"
    by (simp_all add: example_batch_def unsqueeze0_def example_image_def)
  then have d: "dim example_batch = 4" by (simp add: dim_def)
  have ag: "affine_grid stub_torch (rotation_theta 0 ''cpu'' ''float32'') (shape example_batch)
       = Inr (zeros [1, 5, 6, 2] ''cpu'' ''float32'')"
    by (simp add: stub_torch_def sh rotation_theta_entries)
  have gs: "grid_sample stub_torch example_batch g m p = Inr example_batch" for g m p
    by (simp add: stub_torch_def)
  have gp: "RandomRotate_get_params counter_rng [0] None (0::int) = (Inr 0, 1)"
    by (simp add: RandomRotate_get_params_def rand_select_def rand_index_def py_randint_def
        reseed_def counter_rng_def py_index_def)
  have c: "fst (RandomRotate_call counter_rng stub_torch [0] ''bilinear'' ''zeros'' None example_batch 0)
       = Inr (as_3d example_batch)"
    using d ag by (simp add: RandomRotate_call_def as_4d_def gp sh gs)
  have s3: "shape (as_3d example_batch) = [3, 5, 6]"
    using d sh by (simp add: as_3d_def squeeze0_def)
  have ne: "as_3d example_batch \<noteq> example_batch"
  proof
    assume "as_3d example_batch = example_batch"
    then have "shape (as_3d example_batch) = shape example_batch" by simp
    with s3 sh show False by simp
  qed
  show ?thesis using d sh ag gs c s3 ne by simp
qed

subsection \<open>Calls leave the transform objects as they are\<close>

text \<open>
  Claim C7. Calling a transform object (a \<open>Compose\<close>, \<open>RandomScale\<close>, \<open>RandomRotate\<close>,
  \<open>RandomAlpha\<close> or \<open>SpatialJitter\<close>), on any input and whether the call returns or raises,
  leaves the store of objects and the store of sequences as they were: every field of
  every transform keeps its value, and so does the content of the sequences the fields
  refer to. Only the two random generators change.
\<close>

theorem call_leaves_fields_unchanged:
  "objs (snd (call depth R L self x w)) = objs w \<and> seqs (snd (call depth R L self x w)) = seqs w
   \<and> objs (snd (Compose_call depth R L ts x w)) = objs w
   \<and> seqs (snd (Compose_call depth R L ts x w)) = seqs w"
proof -
  have "objs (snd (call depth R L self x w)) = objs w \<and> seqs (snd (call depth R L self x w)) = seqs w"
    and "objs (snd (Compose_call depth R L ts x w)) = objs w
      \<and> seqs (snd (Compose_call depth R L ts x w)) = seqs w"
  proof (induction depth R L self x w and depth R L ts x w rule: call_Compose_call.induct)
    case (1 R L self x w)
    show ?case by simp
  next
    case (2 depth R L self x w)
    show ?case
    proof (cases "objs w self")
      case (Compose transforms)
      with "2.IH" show ?thesis by simp
    qed (simp_all split: prod.split)
  next
    case (3 depth R L x w)
    show ?case by simp
  next
    case (4 depth R L transform rest x w)
    obtain res w' where c: "call depth R L transform x w = (res, w')" by (cases "call depth R L transform x w")
    from "4.IH"(1) c have f: "objs w' = objs w \<and> seqs w' = seqs w" by simp
    show ?case
    proof (cases res)
      case (Inl e)
      with c f show ?thesis by simp
    next
      case (Inr y)
      from "4.IH"(2) [OF c [symmetric] Inr]
      have "objs (snd (Compose_call depth R L rest y w')) = objs w'
          \<and> seqs (snd (Compose_call depth R L rest y w')) = seqs w'" by simp
      with c f Inr show ?thesis by simp
    qed
  qed
  then show ?thesis by simp
qed

text \<open>
  A run of the model: the \<open>Compose\<close> at address 0 of the example state crops the example
  image, composites the crop over a random image, and leaves both generators advanced.
\<close>

lemma jitter_run:
  "SpatialJitter_call counter_rng 2 (Some 1) example_image 0 =
     (slice_hw example_image 1 4 2 6, 3)"
  by (simp add: SpatialJitter_call_def SpatialJitter_get_params_def py_randint_def reseed_def
      counter_rng_def as_3d_def dim_def example_image_def tsize_def)

lemma example_call_runs:
  "rng (snd (call (Suc (Suc 0)) counter_rng stub_torch 0 example_image example_world)) = 3
   \<and> torch_rng (snd (call (Suc (Suc 0)) counter_rng stub_torch 0 example_image example_world)) = 1
   \<and> (\<exists>out. fst (call (Suc (Suc 0)) counter_rng stub_torch 0 example_image example_world) = Inr out
          \<and> shape out = [2, 3, 4])"
proof -
  obtain cropped where c: "slice_hw example_image 1 4 2 6 = Inr cropped"
    and sc: "shape cropped = [3, 3, 4]" and dc: "device cropped = ''cpu''"
    by (simp add: slice_hw_def example_image_def slice_range_def slice_bound_def)
  obtain out where a: "RandomAlpha_call stub_torch (1 / 2) 1 True cropped 0 = (Inr out, 1)"
    and so: "shape out = [2, 3, 4]"
    using sc dc
    by (simp add: RandomAlpha_call_def RandomAlpha_size_def RandomAlpha_blend_def as_3d_def dim_def
        stub_torch_def to_device_def select_last_def tsize_def repeat_def drop_last_def
        slice_range_def slice_bound_def tensor_mul_def tensor_add_def tensor_binop_def
        scalar_minus_def broadcast_shapes_def broadcast_dim_def Let_def)
  have "call (Suc (Suc 0)) counter_rng stub_torch 0 example_image example_world
      = (Inr out, example_world\<lparr>rng := 3, torch_rng := 1\<rparr>)"
    by (simp add: example_world_def jitter_run c a)
  with so show ?thesis by simp
qed

theorem call_leaves_fields_unchanged_witness:
  "objs (snd (call (Suc (Suc 0)) counter_rng stub_torch 0 example_image example_world)) = objs example_world
   \<and> seqs (snd (call (Suc (Suc 0)) counter_rng stub_torch 0 example_image example_world)) = seqs example_world
   \<and> rng (snd (call (Suc (Suc 0)) counter_rng stub_torch 0 example_image example_world)) = 3
   \<and> torch_rng (snd (call (Suc (Suc 0)) counter_rng stub_torch 0 example_image example_world)) = 1"
  using call_leaves_fields_unchanged [of "Suc (Suc 0)" counter_rng stub_torch 0 example_image example_world "[]"]
    example_call_runs
  by simp

subsection \<open>Seeded selection\<close>

text \<open>
  Claim C8. With a seed, the outcome of \<open>_rand_select\<close> and of
  \<open>SpatialJitter.get_params\<close> (the value or the exception, and the generator state left
  behind) does not depend on the state \<open>g1\<close> or \<open>g2\<close> the global generator was in
  before the call: the call reseeds it first. Two invocations with the same arguments
  therefore return the same result, whatever ran in between; in particular a second
  invocation, from the state the first one left, returns what the first returned.
\<close>

theorem seeded_selection_deterministic:
  "rand_select R xs (Some s) g1 = rand_select R xs (Some s) g2
   \<and> SpatialJitter_get_params R pixels (Some s) g1 = SpatialJitter_get_params R pixels (Some s) g2
   \<and> fst (rand_select R xs (Some s) (snd (rand_select R xs (Some s) g)))
       = fst (rand_select R xs (Some s) g)
   \<and> fst (SpatialJitter_get_params R pixels (Some s) (snd (SpatialJitter_get_params R pixels (Some s) g)))
       = fst (SpatialJitter_get_params R pixels (Some s) g)"
proof -
  have sel: "rand_select R xs (Some s) a = rand_select R xs (Some s) b" for a b
    by (simp add: rand_select_def rand_index_def reseed_def)
  have jit: "SpatialJitter_get_params R pixels (Some s) a = SpatialJitter_get_params R pixels (Some s) b"
    for a b
    by (simp add: SpatialJitter_get_params_def reseed_def)
  from sel [of g1 g2] jit [of g1 g2]
    sel [of "snd (rand_select R xs (Some s) g)" g]
    jit [of "snd (SpatialJitter_get_params R pixels (Some s) g)" g]
  show ?thesis by simp
qed

text \<open>
  Without a seed the outcome does depend on the state of the generator: the counter
  generator selects different elements from two different states.
\<close>

lemma unseeded_selection_depends_on_state:
  "fst (rand_select counter_rng [10, 20, 30 :: int] None 0) = Inr 10
   \<and> fst (rand_select counter_rng [10, 20, 30 :: int] None 1) = Inr 20"
  by (simp add: rand_select_def rand_index_def py_randint_def reseed_def counter_rng_def py_index_def)

section \<open>Properties of models/utils.py\<close>

subsection \<open>Storer.forward\<close>

text \<open>
  Claim C2. For every store of mappings, every name and every input \<open>x\<close>,
  \<open>Storer(save_state, name).forward(x)\<close> returns \<open>x\<close>, and afterwards the mapping at
  \<open>save_state\<close> holds \<open>x\<close> under \<open>name\<close>.
\<close>

theorem Storer_forward_captures:
  "fst (Storer_forward (Storer_init save_state0 name0) x D) = x
   \<and> snd (Storer_forward (Storer_init save_state0 name0) x D) save_state0 name0 = Some x"
  by (simp add: Storer_forward_def Storer_init_def)

theorem Storer_forward_captures_witness:
  "fst (Storer_forward (Storer_init 0 ''conv1'') (7::int) (\<lambda>a. Map.empty)) = 7
   \<and> snd (Storer_forward (Storer_init 0 ''conv1'') (7::int) (\<lambda>a. Map.empty)) 0 ''conv1'' = Some 7"
  using Storer_forward_captures [of 0 "''conv1''" "7::int" "\<lambda>a. Map.empty"] by simp

subsection \<open>storer\<close>

text \<open>
  Claim C10. \<open>storer\<close> returns \<open>x\<close>, and afterwards \<open>state[LAYER_DICT]\<close> is a dictionary
  that holds \<open>x\<close> under \<open>name\<close>. When the body of the \<open>try\<close> raises, the entry is replaced
  by the new dictionary \<open>{name: x}\<close>, whatever it held; when the entry is a dictionary,
  the assignment adds to it. The body raises exactly when the key is absent or its entry
  is no dictionary.
\<close>

theorem storer_stores_or_replaces:
  "fst (storer LAYER_DICT state n x) = x
   \<and> (\<exists>d. snd (storer LAYER_DICT state n x) LAYER_DICT = Some (Dict d) \<and> d n = Some x)
   \<and> (\<forall>e. storer_try LAYER_DICT state n x = Inl e \<longrightarrow>
         snd (storer LAYER_DICT state n x) = state(LAYER_DICT \<mapsto> Dict [n \<mapsto> x]))
   \<and> (\<forall>d. state LAYER_DICT = Some (Dict d) \<longrightarrow>
         snd (storer LAYER_DICT state n x) = state(LAYER_DICT \<mapsto> Dict (d(n \<mapsto> x))))
   \<and> ((\<exists>e. storer_try LAYER_DICT state n x = Inl e) \<longleftrightarrow>
         (state LAYER_DICT = None \<or> (\<exists>v. state LAYER_DICT = Some (Plain v))))"
  by (auto simp: storer_def storer_try_def split: option.splits state_entry.splits)

theorem storer_stores_or_replaces_witness:
  "storer_try ''layers'' [''layers'' \<mapsto> Plain (0::int)] ''conv1'' 7 = Inl TypeError
   \<and> snd (storer ''layers'' [''layers'' \<mapsto> Plain (0::int)] ''conv1'' 7)
       = [''layers'' \<mapsto> Plain 0](''layers'' \<mapsto> Dict [''conv1'' \<mapsto> 7])
   \<and> snd (storer ''layers'' [''layers'' \<mapsto> Dict [''fc'' \<mapsto> (1::int)]] ''conv1'' 7)
       = [''layers'' \<mapsto> Dict [''fc'' \<mapsto> 1]](''layers'' \<mapsto> Dict ([''fc'' \<mapsto> 1](''conv1'' \<mapsto> 7)))
   \<and> fst (storer ''layers'' [''layers'' \<mapsto> Plain (0::int)] ''conv1'' 7) = 7"
proof -
  have t: "storer_try ''layers'' [''layers'' \<mapsto> Plain (0::int)] ''conv1'' 7 = Inl TypeError"
    by (simp add: storer_try_def)
  have d: "[''layers'' \<mapsto> Dict [''fc'' \<mapsto> (1::int)]] ''layers'' = Some (Dict [''fc'' \<mapsto> 1])"
    by simp
  from storer_stores_or_replaces [of "''layers''" "[''layers'' \<mapsto> Plain (0::int)]" "''conv1''" 7] t
  have a: "snd (storer ''layers'' [''layers'' \<mapsto> Plain (0::int)] ''conv1'' 7)
       = [''layers'' \<mapsto> Plain 0](''layers'' \<mapsto> Dict [''conv1'' \<mapsto> 7])"
    and f: "fst (storer ''layers'' [''layers'' \<mapsto> Plain (0::int)] ''conv1'' 7) = 7"
    by blast+
  from storer_stores_or_replaces [of "''layers''" "[''layers'' \<mapsto> Dict [''fc'' \<mapsto> (1::int)]]" "''conv1''" 7] d
  have b: "snd (storer ''layers'' [''layers'' \<mapsto> Dict [''fc'' \<mapsto> (1::int)]] ''conv1'' 7)
       = [''layers'' \<mapsto> Dict [''fc'' \<mapsto> 1]](''layers'' \<mapsto> Dict ([''fc'' \<mapsto> 1](''conv1'' \<mapsto> 7)))"
    by blast
  from t a b f show ?thesis by blast
qed

subsection \<open>relus_to_not_inplace and BaseModel\<close>

lemma modules_from_same_graph:
  "same_graph h h' \<Longrightarrow> modules_from h' todo memo = modules_from h todo memo"
proof (induction h todo memo rule: modules_from.induct)
  case (1 h memo)
  show ?case by simp
next
  case (2 h a todo memo)
  from "2.prems" have l: "length h' = length h" by (simp add: same_graph_def)
  show ?case
  proof (cases "a < length h \<and> a \<notin> set memo")
    case True
    with "2.prems" have c: "children (h' ! a) = children (h ! a)"
      by (simp add: same_graph_def)
    have "modules_from h' (a # todo) memo = modules_from h' (children (h' ! a) @ todo) (memo @ [a])"
      using True l by simp
    also have "\<dots> = modules_from h (children (h ! a) @ todo) (memo @ [a])"
      unfolding c by (rule "2.IH"(1) [OF True "2.prems"])
    also have "\<dots> = modules_from h (a # todo) memo"
      using True by simp
    finally show ?thesis .
  next
    case False
    have "modules_from h' (a # todo) memo = modules_from h' todo memo"
      using False l by auto
    also have "\<dots> = modules_from h todo memo"
      by (rule "2.IH"(2) [OF False "2.prems"])
    also have "\<dots> = modules_from h (a # todo) memo"
      using False by auto
    finally show ?thesis .
  qed
qed

lemma modules_from_bound:
  "set (modules_from h todo memo) \<subseteq> set memo \<union> {..<length h}"
  by (induction h todo memo rule: modules_from.induct) auto

lemma modules_in_heap: "a \<in> set (modules h model) \<Longrightarrow> a < length h"
  using modules_from_bound [of h "[model]" "[]"] by (auto simp: modules_def)

lemma set_not_inplace_length: "length (set_not_inplace h m) = length h"
  by (simp add: set_not_inplace_def)

lemma set_not_inplace_keeps:
  "mclass (set_not_inplace h m ! a) = mclass (h ! a)"
  "children (set_not_inplace h m ! a) = children (h ! a)"
  by (cases "m < length h"; cases "a = m"; simp add: set_not_inplace_def list_update_beyond)+

lemma foldl_set_not_inplace_keeps:
  "length (foldl set_not_inplace h ms) = length h"
  "mclass (foldl set_not_inplace h ms ! a) = mclass (h ! a)"
  "children (foldl set_not_inplace h ms ! a) = children (h ! a)"
  by (induction ms arbitrary: h) (simp_all add: set_not_inplace_length set_not_inplace_keeps)

lemma set_not_inplace_sets:
  "a < length h \<Longrightarrow> mclass (h ! a) \<in> set relu_classes \<Longrightarrow> inplace (set_not_inplace h a ! a) = Some False"
  by (simp add: set_not_inplace_def)

lemma set_not_inplace_stays:
  "inplace (h ! a) = Some False \<Longrightarrow> inplace (set_not_inplace h m ! a) = Some False"
  by (cases "m < length h"; cases "a = m"; simp add: set_not_inplace_def list_update_beyond)

lemma foldl_set_not_inplace_stays:
  "inplace (h ! a) = Some False \<Longrightarrow> inplace (foldl set_not_inplace h ms ! a) = Some False"
  by (induction ms arbitrary: h) (simp_all add: set_not_inplace_stays)

lemma foldl_set_not_inplace_sets:
  assumes "a \<in> set ms" and "a < length h" and "mclass (h ! a) \<in> set relu_classes"
  shows "inplace (foldl set_not_inplace h ms ! a) = Some False"
  using assms
proof (induction ms arbitrary: h)
  case Nil
  then show ?case by simp
next
  case (Cons m ms)
  show ?case
  proof (cases "a = m")
    case True
    with Cons.prems have "inplace (set_not_inplace h m ! a) = Some False"
      by (simp add: set_not_inplace_sets)
    then show ?thesis by (simp add: foldl_set_not_inplace_stays)
  next
    case False
    with Cons.prems have "a \<in> set ms" by simp
    moreover from Cons.prems have "a < length (set_not_inplace h m)"
      by (simp add: set_not_inplace_length)
    moreover from Cons.prems have "mclass (set_not_inplace h m ! a) \<in> set relu_classes"
      by (simp add: set_not_inplace_keeps)
    ultimately show ?thesis using Cons.IH by simp
  qed
qed

lemma relus_to_not_inplace_same_graph: "same_graph h (relus_to_not_inplace h model)"
  by (simp add: same_graph_def relus_to_not_inplace_def foldl_set_not_inplace_keeps)

lemma relus_to_not_inplace_result:
  assumes "m \<in> set (modules (relus_to_not_inplace h model) model)"
    and "mclass (relus_to_not_inplace h model ! m) \<in> set relu_classes"
  shows "inplace (relus_to_not_inplace h model ! m) = Some False"
proof -
  have "modules (relus_to_not_inplace h model) model = modules h model"
    unfolding modules_def by (rule modules_from_same_graph [OF relus_to_not_inplace_same_graph])
  with assms(1) have m: "m \<in> set (modules h model)" by simp
  then have "m < length h" by (rule modules_in_heap)
  moreover from assms(2) have "mclass (h ! m) \<in> set relu_classes"
    by (simp add: relus_to_not_inplace_def foldl_set_not_inplace_keeps)
  ultimately show ?thesis using m
    unfolding relus_to_not_inplace_def by (intro foldl_set_not_inplace_sets)
qed

lemma same_modules_attr:
  "same_modules h (h[self := (h ! self)\<lparr>layer_names := v\<rparr>])"
  "same_modules h (h[self := (h ! self)\<lparr>name_attr := n\<rparr>])"
  "same_modules h (h[self := (h ! self)\<lparr>qualname_attr := n\<rparr>])"
  unfolding same_modules_def
  by (cases "self < length h"; auto simp: nth_list_update list_update_beyond)+

lemma same_modules_trans: "same_modules h h1 \<Longrightarrow> same_modules h1 h2 \<Longrightarrow> same_modules h h2"
  by (simp add: same_modules_def)

lemma same_modules_graph: "same_modules h h' \<Longrightarrow> same_graph h h'"
  by (simp add: same_modules_def same_graph_def)

text \<open>
  Claim C1. For every class \<open>model\<close>, whenever constructing the class \<open>basemodel\<close> returns
  succeeds, with the new object at \<open>self\<close> and the heap \<open>h'\<close>: the constructor of \<open>model\<close>
  ran on the new object, \<open>relus_to_not_inplace\<close> ran on the heap it left (\<open>h'\<close> has the
  modules of its result), and every module of the new model, that is every module
  \<open>self.modules()\<close> yields, whose class is one of the five of \<open>_relu_classes\<close> has
  \<open>inplace\<close> equal to \<open>False\<close>.
\<close>

theorem basemodel_relus_not_inplace:
  assumes "basemodel model names args h = (Inr self, h')"
  shows "\<exists>h1. BaseModel_init model self names args
                 (h @ [\<lparr>mclass = BaseModel (cls_name model), inplace = None, children = [],
                         layer_names = None, name_attr = None, qualname_attr = None\<rparr>]) = (Inr (), h')
           \<and> cls_init model self args
                 (h @ [\<lparr>mclass = BaseModel (cls_name model), inplace = None, children = [],
                         layer_names = None, name_attr = None, qualname_attr = None\<rparr>]) = (Inr (), h1)
           \<and> same_modules (relus_to_not_inplace h1 self) h'
           \<and> (\<forall>m \<in> set (modules h' self).
                 mclass (h' ! m) \<in> set relu_classes \<longrightarrow> inplace (h' ! m) = Some False)"
proof -
  let ?h0 = "h @ [\<lparr>mclass = BaseModel (cls_name model), inplace = None, children = [],
                    layer_names = None, name_attr = None, qualname_attr = None\<rparr>]"
  from assms have self: "self = length h" and bi: "BaseModel_init model self names args ?h0 = (Inr (), h')"
    by (auto simp: basemodel_def Let_def split: prod.splits sum.splits)
  obtain r h1 where ci: "cls_init model self args ?h0 = (r, h1)" by (cases "cls_init model self args ?h0")
  with bi have r: "r = Inr ()" by (cases r) (simp_all add: BaseModel_init_def)
  let ?h2 = "relus_to_not_inplace h1 self"
  let ?h3 = "?h2[self := (?h2 ! self)\<lparr>layer_names := Some names\<rparr>]"
  let ?h4 = "?h3[self := (?h3 ! self)\<lparr>name_attr := Some (cls_name model)\<rparr>]"
  let ?h5 = "?h4[self := (?h4 ! self)\<lparr>qualname_attr := Some (cls_qualname model)\<rparr>]"
  from bi ci r have h': "h' = ?h5" by (simp add: BaseModel_init_def Let_def)
  have sm: "same_modules ?h2 h'"
    unfolding h'
    by (rule same_modules_trans [OF same_modules_trans [OF same_modules_attr(1) same_modules_attr(2)]
          same_modules_attr(3)])
  have mods: "modules h' self = modules ?h2 self"
    unfolding modules_def by (rule modules_from_same_graph [OF same_modules_graph [OF sm]])
  have "inplace (h' ! m) = Some False"
    if "m \<in> set (modules h' self)" and "mclass (h' ! m) \<in> set relu_classes" for m
  proof -
    from sm have eq: "mclass (h' ! m) = mclass (?h2 ! m)" "inplace (h' ! m) = inplace (?h2 ! m)"
      by (simp_all add: same_modules_def)
    from that mods eq show ?thesis by (simp add: relus_to_not_inplace_result)
  qed
  with bi ci r sm show ?thesis by blast
qed

lemma example_net_built:
  "basemodel example_net [''relu''] () [] =
     (Inr 0,
      [\<lparr>mclass = BaseModel ''Net'', inplace = None, children = [1, 2],
         layer_names = Some [''relu''], name_attr = Some ''Net'', qualname_attr = Some ''nets.Net''\<rparr>,
       \<lparr>mclass = ReLU, inplace = Some False, children = [],
         layer_names = None, name_attr = None, qualname_attr = None\<rparr>,
       \<lparr>mclass = OtherClass ''Sequential'', inplace = None, children = [3, 1],
         layer_names = None, name_attr = None, qualname_attr = None\<rparr>,
       \<lparr>mclass = LeakyReLU, inplace = Some False, children = [],
         layer_names = None, name_attr = None, qualname_attr = None\<rparr>])"
  by (simp add: basemodel_def BaseModel_init_def example_net_def relus_to_not_inplace_def
      modules_def set_not_inplace_def relu_classes_def Let_def)

theorem basemodel_relus_not_inplace_witness:
  "fst (basemodel example_net [''relu''] () []) = Inr 0
   \<and> modules (snd (basemodel example_net [''relu''] () [])) 0 = [0, 1, 2, 3]
   \<and> map mclass (snd (basemodel example_net [''relu''] () []))
       = [BaseModel ''Net'', ReLU, OtherClass ''Sequential'', LeakyReLU]
   \<and> inplace (snd (basemodel example_net [''relu''] () []) ! 1) = Some False
   \<and> inplace (snd (basemodel example_net [''relu''] () []) ! 3) = Some False"
proof -
  let ?h' = "snd (basemodel example_net [''relu''] () [])"
  have e: "basemodel example_net [''relu''] () [] = (Inr 0, ?h')"
    by (simp add: example_net_built)
  have m: "modules ?h' 0 = [0, 1, 2, 3]"
    by (simp add: example_net_built modules_def)
  have c: "map mclass ?h' = [BaseModel ''Net'', ReLU, OtherClass ''Sequential'', LeakyReLU]"
    by (simp add: example_net_built)
  from basemodel_relus_not_inplace [OF e]
  have all: "\<forall>m \<in> set (modules ?h' 0). mclass (?h' ! m) \<in> set relu_classes \<longrightarrow> inplace (?h' ! m) = Some False"
    by blast
  have "1 \<in> set (modules ?h' 0)" "mclass (?h' ! 1) \<in> set relu_classes"
    "3 \<in> set (modules ?h' 0)" "mclass (?h' ! 3) \<in> set relu_classes"
    by (simp_all add: example_net_built modules_def relu_classes_def)
  with all have i: "inplace (?h' ! 1) = Some False" "inplace (?h' ! 3) = Some False" by blast+
  have f: "fst (basemodel example_net [''relu''] () []) = Inr 0" by (simp add: example_net_built)
  from f m c i show ?thesis by blast
qed

end
